theory Spec2Isabelle
  imports Complex_Main "HOL-Library.Char_ord" "HOL-Library.List_Lexorder" "HOL-Library.Multiset"
begin

section \<open>Python string and regular-expression primitives\<close>

text \<open>
  Texts are sequences of ASCII characters. A Python float is modelled by the real number
  its literal denotes, and comparisons of floats by the order of the reals. The sarcasm
  detector adds, averages and compares a handful of fixed constants, and the theorems
  about it are stated over the expressions the code evaluates. The one arithmetic
  operation on arbitrary probabilities, the difference of the two leading ones, is
  rounded by Python; it is a parameter of the enrichment.
\<close>

definition ascii_uppercase :: string where
  "ascii_uppercase = ''ABCDEFGHIJKLMNOPQRSTUVWXYZ''"

definition ascii_lowercase :: string where
  "ascii_lowercase = ''abcdefghijklmnopqrstuvwxyz''"

definition digits :: string where
  "digits = ''0123456789''"

text \<open>\<open>str.lower()\<close> and \<open>str.upper()\<close> on ASCII text, letter by letter.\<close>

definition lower_char :: "char \<Rightarrow> char" where
  "lower_char c = (case map_of (zip ascii_uppercase ascii_lowercase) c of None \<Rightarrow> c | Some d \<Rightarrow> d)"

definition upper_char :: "char \<Rightarrow> char" where
  "upper_char c = (case map_of (zip ascii_lowercase ascii_uppercase) c of None \<Rightarrow> c | Some d \<Rightarrow> d)"

definition lower :: "string \<Rightarrow> string" where
  "lower s = map lower_char s"

text \<open>\<open>str.capitalize()\<close>: first character upper-cased, the rest lower-cased.\<close>

fun capitalize :: "string \<Rightarrow> string" where
  "capitalize [] = []"
| "capitalize (c # cs) = upper_char c # map lower_char cs"

text \<open>\<open>sep.join(xs)\<close>.\<close>

fun join :: "string \<Rightarrow> string list \<Rightarrow> string" where
  "join sep [] = []"
| "join sep [x] = x"
| "join sep (x # y # ys) = x @ sep @ join sep (y # ys)"

text \<open>
  The regex classes \<open>\w\<close> (letters, digits, underscore) and \<open>\s\<close> (the ASCII white
  space of Python's \<open>str\<close> patterns: codes 9 to 13, 28 to 32).
\<close>

definition is_word_char :: "char \<Rightarrow> bool" where
  "is_word_char c = (c \<in> set (ascii_lowercase @ ascii_uppercase @ digits @ ''_''))"

definition is_space_char :: "char \<Rightarrow> bool" where
  "is_space_char c =
     (c \<in> set [CHR 0x20, CHR 0x09, CHR 0x0A, CHR 0x0B, CHR 0x0C, CHR 0x0D,
                CHR 0x1C, CHR 0x1D, CHR 0x1E, CHR 0x1F])"

text \<open>
  A matcher is a pattern anchored at one position of the text: it sees the character
  before the position (\<open>None\<close> at the start of the text) and the rest of the text, and
  returns the matched text (\<open>match.group()\<close>) when the pattern matches there.
\<close>

type_synonym matcher = "char option \<Rightarrow> string \<Rightarrow> string option"

text \<open>\<open>\b\<close>: exactly one of the two neighbouring positions holds a word character.\<close>

definition word_boundary :: "char option \<Rightarrow> string \<Rightarrow> bool" where
  "word_boundary prev rest =
     ((case prev of None \<Rightarrow> False | Some c \<Rightarrow> is_word_char c) \<noteq>
      (case rest of [] \<Rightarrow> False | c # _ \<Rightarrow> is_word_char c))"

text \<open>
  A literal, compared character by character (under \<open>re.IGNORECASE\<close> when \<open>ci\<close> is set);
  returns the last character consumed and what is left of the text.
\<close>

fun match_literal :: "bool \<Rightarrow> string \<Rightarrow> char option \<Rightarrow> string \<Rightarrow> (char option \<times> string) option" where
  "match_literal ci [] prev s = Some (prev, s)"
| "match_literal ci (p # ps) prev [] = None"
| "match_literal ci (p # ps) prev (c # cs) =
     (if (if ci then lower_char p = lower_char c else p = c)
      then match_literal ci ps (Some c) cs else None)"

text \<open>
  The pattern \<open>\b\<close> + literal + \<open>\b\<close>. A match needs the literal and both boundaries;
  the literal is compared first, the two zero-width assertions after it.
\<close>

definition word_pattern :: "bool \<Rightarrow> string \<Rightarrow> matcher" where
  "word_pattern ci lit prev s =
     (case match_literal ci lit prev s of
        None \<Rightarrow> None
      | Some (prev', rest) \<Rightarrow>
          if word_boundary prev s \<and> word_boundary prev' rest
          then Some (take (length lit) s) else None)"

text \<open>
  The pattern \<open>\b\<close> + a + \<open>\s+\<close> + b + \<open>\b\<close>. The second literal starts with a
  letter, so \<open>\s+\<close> can only match the whole run of white space.
\<close>

definition spaced_pattern :: "string \<Rightarrow> string \<Rightarrow> matcher" where
  "spaced_pattern a b prev s =
     (case match_literal False a prev s of
        None \<Rightarrow> None
      | Some (prev', rest) \<Rightarrow>
          let ws = takeWhile is_space_char rest; rest' = dropWhile is_space_char rest in
          if ws = [] then None
          else (case match_literal False b (Some (last ws)) rest' of
                  None \<Rightarrow> None
                | Some (prev'', rest'') \<Rightarrow>
                    if word_boundary prev s \<and> word_boundary prev'' rest''
                    then Some (take (length a + length ws + length b) s) else None))"

text \<open>The pattern \<open>[cs]{n,}\<close>: a run of at least \<open>n\<close> characters of the class.\<close>

definition run_pattern :: "(char \<Rightarrow> bool) \<Rightarrow> nat \<Rightarrow> matcher" where
  "run_pattern cls n prev s =
     (let r = takeWhile cls s in if n \<le> length r then Some r else None)"

text \<open>\<open>re.search\<close>: the match at the leftmost position where the pattern matches.\<close>

fun re_search_from :: "matcher \<Rightarrow> char option \<Rightarrow> string \<Rightarrow> string option" where
  "re_search_from m prev [] = m prev []"
| "re_search_from m prev (c # cs) =
     (case m prev (c # cs) of Some g \<Rightarrow> Some g | None \<Rightarrow> re_search_from m (Some c) cs)"

definition re_search :: "matcher \<Rightarrow> string \<Rightarrow> string option" where
  "re_search m s = re_search_from m None s"

definition is_quote_char :: "char \<Rightarrow> bool" where
  "is_quote_char c = (c = CHR 0x22 \<or> c = CHR 0x27)"

text \<open>
  \<open>re.finditer(r'["\'](\w+)["\']', s)\<close>, returning \<open>group(1)\<close> of every match: scanning
  from the left, a quote, the whole run of word characters after it (not empty), and a
  quote; the scan resumes after the closing quote of a match.
\<close>

function finditer_quoted :: "string \<Rightarrow> string list" where
  "finditer_quoted [] = []"
| "finditer_quoted (c # cs) =
     (if is_quote_char c then
        (if takeWhile is_word_char cs \<noteq> [] \<and> dropWhile is_word_char cs \<noteq> []
            \<and> is_quote_char (hd (dropWhile is_word_char cs))
         then takeWhile is_word_char cs # finditer_quoted (tl (dropWhile is_word_char cs))
         else finditer_quoted cs)
      else finditer_quoted cs)"
  by pat_completeness auto
termination
proof (relation "measure length")
  fix c :: char and cs :: string
  have "length (tl (dropWhile is_word_char cs)) \<le> length (dropWhile is_word_char cs)"
    by simp
  also have "\<dots> \<le> length cs"
    by (rule length_dropWhile_le)
  finally show "(tl (dropWhile is_word_char cs), c # cs) \<in> measure length"
    by simp
qed simp_all

section \<open>Sarcasm detector (\<open>src/sarcasm_detector.py\<close>)\<close>

record SarcasmResult =
  is_sarcastic :: bool
  confidence :: real
  indicators :: "string list"
  explanation :: string

definition SARCASTIC_PHRASES :: "string list" where
  "SARCASTIC_PHRASES =
     [''great job'', ''well done'', ''thanks a lot'', ''oh wonderful'', ''oh great'',
      ''just wonderful'', ''just perfect'', ''brilliant idea'', ''genius'', ''fantastic'',
      ''amazing work'', ''real smart'', ''very helpful'', ''so helpful'', ''love it when'',
      ''really appreciate'', ''couldn't be better'']"

definition NEGATIVE_CONTEXT :: "string list" where
  "NEGATIVE_CONTEXT =
     [''terrible'', ''awful'', ''horrible'', ''worst'', ''useless'', ''broken'', ''failed'',
      ''disaster'', ''nightmare'', ''unacceptable'', ''ridiculous'', ''pathetic'',
      ''waste'', ''never'', ''disappointed'', ''frustrated'', ''angry'', ''furious'',
      ''can't believe'', ''seriously'', ''joke'', ''kidding'']"

definition POSITIVE_SURFACE :: "string list" where
  "POSITIVE_SURFACE =
     [''great'', ''wonderful'', ''excellent'', ''perfect'', ''amazing'', ''fantastic'',
      ''brilliant'', ''awesome'', ''outstanding'', ''superb'', ''lovely'', ''nice'',
      ''thanks'', ''thank'', ''appreciate'', ''love'', ''enjoy'']"

definition SARCASTIC_INTENSIFIERS :: "string list" where
  "SARCASTIC_INTENSIFIERS =
     [''really'', ''so'', ''very'', ''such'', ''totally'', ''absolutely'', ''definitely'',
      ''surely'', ''clearly'', ''obviously'', ''just'']"

text \<open>\<open>_detect_sarcastic_phrases\<close>: one indicator per phrase pattern found in the text.\<close>

definition detect_sarcastic_phrases :: "string \<Rightarrow> real \<times> string list" where
  "detect_sarcastic_phrases text_lower =
     (let indicators =
            concat (map (\<lambda>phrase.
              case re_search (word_pattern True phrase) text_lower of
                None \<Rightarrow> []
              | Some g \<Rightarrow> [''sarcastic phrase: '' @ [CHR 0x27] @ g @ [CHR 0x27]])
              SARCASTIC_PHRASES)
      in if indicators \<noteq> [] then (0.75, indicators) else (0.0, []))"

text \<open>\<open>_detect_contrast\<close>.\<close>

definition positive_found :: "string \<Rightarrow> string list" where
  "positive_found text_lower =
     filter (\<lambda>word. re_search (word_pattern False word) text_lower \<noteq> None) POSITIVE_SURFACE"

definition negative_found :: "string \<Rightarrow> string list" where
  "negative_found text_lower =
     filter (\<lambda>word. re_search (word_pattern False word) text_lower \<noteq> None) NEGATIVE_CONTEXT"

definition intensified_positives :: "string \<Rightarrow> string list" where
  "intensified_positives text_lower =
     concat (map (\<lambda>intensifier.
       concat (map (\<lambda>positive.
         if re_search (spaced_pattern intensifier positive) text_lower \<noteq> None
         then [intensifier @ '' '' @ positive] else [])
         POSITIVE_SURFACE))
       SARCASTIC_INTENSIFIERS)"

definition detect_contrast :: "string \<Rightarrow> real \<times> string list" where
  "detect_contrast text_lower =
     (let (score1, indicators1) =
            (if positive_found text_lower \<noteq> [] \<and> negative_found text_lower \<noteq> []
             then (0.7,
                   [''contrast: positive words ('' @ join '', '' (take 2 (positive_found text_lower)) @
                    '') with negative context ('' @ join '', '' (take 2 (negative_found text_lower)) @
                    '')''])
             else (0.0, []))
      in (case intensified_positives text_lower of
            [] \<Rightarrow> (score1, indicators1)
          | ip # _ \<Rightarrow>
              (max score1 0.65,
               indicators1 @ [''intensified positive: '' @ [CHR 0x27] @ ip @ [CHR 0x27]])))"

text \<open>\<open>_detect_excessive_punctuation\<close>, on the text as given (not lower-cased).\<close>

definition detect_excessive_punctuation :: "string \<Rightarrow> real \<times> string list" where
  "detect_excessive_punctuation text =
     (let indicators =
            (if re_search (run_pattern (\<lambda>c. c = CHR ''!'') 2) text \<noteq> None
             then [''excessive exclamation marks''] else []) @
            (if re_search (run_pattern (\<lambda>c. c = CHR ''?'') 2) text \<noteq> None
             then [''excessive question marks''] else []) @
            (if re_search (run_pattern (\<lambda>c. c = CHR ''!'' \<or> c = CHR ''?'') 3) text \<noteq> None
             then [''mixed excessive punctuation''] else [])
      in if indicators \<noteq> [] then (0.55, indicators) else (0.0, []))"

text \<open>\<open>_detect_quoted_positives\<close>.\<close>

definition detect_quoted_positives :: "string \<Rightarrow> real \<times> string list" where
  "detect_quoted_positives text =
     (let indicators =
            map (\<lambda>word. ''quoted positive word: '' @ [CHR 0x27] @ word @ [CHR 0x27])
              (filter (\<lambda>word. word \<in> set POSITIVE_SURFACE) (finditer_quoted (lower text)))
      in if indicators \<noteq> [] then (0.7, indicators) else (0.0, []))"

text \<open>\<open>_detect_polarity_mismatch\<close>.\<close>

definition negative_emotions :: "string list" where
  "negative_emotions =
     [''anger'', ''frustration'', ''disappointment'', ''sadness'',
      ''fear'', ''anxiety'', ''annoyance'', ''regret'']"

definition detect_polarity_mismatch :: "string \<Rightarrow> string \<Rightarrow> real \<times> string list" where
  "detect_polarity_mismatch sentiment emotion =
     (if sentiment = ''positive'' \<and> emotion \<in> set negative_emotions
      then (0.6, [''polarity mismatch: positive sentiment with '' @ emotion @ '' emotion''])
      else (0.0, []))"

text \<open>
  \<open>_generate_explanation\<close>; the counter of the numbered list only takes the values 1, 2
  and 3.
\<close>

definition generate_sarcasm_explanation :: "string list \<Rightarrow> bool \<Rightarrow> string" where
  "generate_sarcasm_explanation inds sarcastic =
     (if \<not> sarcastic then ''No sarcasm detected. Text appears straightforward.''
      else if length inds = 0 then ''Low sarcasm signals detected.''
      else join '' ''
             (''Sarcasm detected based on:'' #
              map (\<lambda>(i, indicator). i @ ''. '' @ capitalize indicator)
                (zip [''1'', ''2'', ''3''] (take 3 inds))))"

text \<open>
  Python truthiness of an optional string argument: \<open>None\<close> and the empty string are
  false.
\<close>

definition truthy :: "string option \<Rightarrow> bool" where
  "truthy x = (case x of None \<Rightarrow> False | Some s \<Rightarrow> s \<noteq> [])"

text \<open>
  The block repeated after each detector in \<open>detect\<close>:
  \<open>if score > 0: confidence_scores.append(score); indicators.extend(found)\<close>.
\<close>

definition add_signal :: "real \<times> string list \<Rightarrow> real list \<times> string list \<Rightarrow> real list \<times> string list" where
  "add_signal sig acc =
     (if fst sig > 0 then (fst acc @ [fst sig], snd acc @ snd sig) else acc)"

text \<open>The signals collected by \<open>detect\<close>, in the order the detectors run.\<close>

definition collect_signals :: "string \<Rightarrow> string option \<Rightarrow> string option \<Rightarrow> real list \<times> string list" where
  "collect_signals text sentiment emotion =
     (let text_lower = lower text;
          acc1 = add_signal (detect_sarcastic_phrases text_lower) ([], []);
          acc2 = add_signal (detect_contrast text_lower) acc1;
          acc3 = add_signal (detect_excessive_punctuation text) acc2;
          acc4 = add_signal (detect_quoted_positives text) acc3
      in if truthy sentiment \<and> truthy emotion
         then add_signal (detect_polarity_mismatch (the sentiment) (the emotion)) acc4
         else acc4)"

text \<open>The confidence calculation of \<open>detect\<close>.\<close>

definition fuse :: "real list \<Rightarrow> bool \<times> real" where
  "fuse confidence_scores =
     (if confidence_scores \<noteq> [] then
        (let base_confidence = sum_list confidence_scores / real (length confidence_scores);
             multi_indicator_bonus = min (0.15 * real (length confidence_scores - 1)) 0.3;
             final_confidence = min (base_confidence + multi_indicator_bonus) 0.95
         in (final_confidence > 0.5, final_confidence))
      else (False, 0.0))"

definition detect :: "string \<Rightarrow> string option \<Rightarrow> string option \<Rightarrow> SarcasmResult" where
  "detect text sentiment emotion =
     (let (confidence_scores, inds) = collect_signals text sentiment emotion;
          (sarcastic, final_confidence) = fuse confidence_scores
      in \<lparr> is_sarcastic = sarcastic,
           confidence = final_confidence,
           indicators = inds,
           explanation = generate_sarcasm_explanation inds sarcastic \<rparr>)"

subsection \<open>The fired detectors, as the specification names them\<close>

text \<open>
  The scores of the five detectors on one call of \<open>detect\<close>, in the order phrase,
  contrast, punctuation, quoted word, polarity mismatch; the last detector only runs
  when a sentiment and an emotion are supplied, and counts as silent otherwise. A
  detector has fired when its score is not zero.
\<close>

definition detector_scores :: "string \<Rightarrow> string option \<Rightarrow> string option \<Rightarrow> real list" where
  "detector_scores text sentiment emotion =
     [fst (detect_sarcastic_phrases (lower text)),
      fst (detect_contrast (lower text)),
      fst (detect_excessive_punctuation text),
      fst (detect_quoted_positives text),
      (if truthy sentiment \<and> truthy emotion
       then fst (detect_polarity_mismatch (the sentiment) (the emotion)) else 0)]"

definition fired_scores :: "string \<Rightarrow> string option \<Rightarrow> string option \<Rightarrow> real list" where
  "fired_scores text sentiment emotion =
     filter (\<lambda>score. score \<noteq> 0) (detector_scores text sentiment emotion)"

section \<open>Domain configuration (\<open>src/config.py\<close>)\<close>

definition EMOTION_GROUPS :: "(string \<times> string list) list" where
  "EMOTION_GROUPS =
     [(''positive'',
         [''joy'', ''satisfaction'', ''trust'', ''excitement'', ''gratitude'', ''relief'']),
      (''negative'',
         [''anger'', ''frustration'', ''disappointment'', ''sadness'', ''fear'', ''anxiety'',
          ''confusion'', ''annoyance'', ''regret'']),
      (''neutral_cognitive'', [''neutral'', ''curiosity'', ''surprise''])]"

definition INTENSITY_THRESHOLDS :: "(string \<times> real \<times> real) list" where
  "INTENSITY_THRESHOLDS =
     [(''low'', 0.0, 0.55), (''medium'', 0.55, 0.75), (''high'', 0.75, 1.0)]"

definition MIXED_EMOTION_THRESHOLD :: real where
  "MIXED_EMOTION_THRESHOLD = 0.15"

definition SARCASM_PRIORITY_EMOTIONS :: "string list" where
  "SARCASM_PRIORITY_EMOTIONS = [''anger'', ''frustration'', ''annoyance'', ''disappointment'']"

record BusinessInsight =
  action :: string
  priority :: string
  category :: string

definition insight :: "string \<Rightarrow> string \<Rightarrow> string \<Rightarrow> BusinessInsight" where
  "insight a p c = \<lparr> action = a, priority = p, category = c \<rparr>"

definition BUSINESS_INSIGHTS :: "(string \<times> BusinessInsight) list" where
  "BUSINESS_INSIGHTS =
     [(''joy'', insight ''Leverage for testimonials and marketing'' ''Low'' ''Loyalty Opportunity''),
      (''satisfaction'', insight ''Request reviews and referrals'' ''Low'' ''Loyalty Opportunity''),
      (''trust'', insight ''Nurture long-term relationship'' ''Low'' ''Loyalty Opportunity''),
      (''excitement'', insight ''Capitalize on enthusiasm with upsell'' ''Medium'' ''Growth Opportunity''),
      (''gratitude'', insight ''Acknowledge and strengthen relationship'' ''Low'' ''Loyalty Opportunity''),
      (''relief'', insight ''Follow up to ensure sustained satisfaction'' ''Medium'' ''Recovery Success''),
      (''anger'', insight ''Immediate escalation to senior support'' ''Critical'' ''Crisis Management''),
      (''frustration'', insight ''Rapid response with clear solution path'' ''High'' ''Issue Resolution''),
      (''disappointment'', insight ''Proactive outreach with compensation offer'' ''High'' ''Retention Risk''),
      (''sadness'', insight ''Empathetic communication and support'' ''High'' ''Retention Risk''),
      (''fear'', insight ''Provide reassurance and security guarantees'' ''High'' ''Trust Building''),
      (''anxiety'', insight ''Transparent communication and frequent updates'' ''Medium'' ''Trust Building''),
      (''confusion'', insight ''Simplify communication and provide guidance'' ''Medium'' ''User Experience Fix''),
      (''annoyance'', insight ''Quick resolution to prevent escalation'' ''Medium'' ''Issue Resolution''),
      (''regret'', insight ''Win-back campaign with special offer'' ''High'' ''Retention Risk''),
      (''neutral'', insight ''Standard follow-up and satisfaction check'' ''Low'' ''Routine Engagement''),
      (''curiosity'', insight ''Provide educational content and demos'' ''Low'' ''Engagement Opportunity''),
      (''surprise'', insight ''Monitor context to understand if positive or negative'' ''Medium'' ''Context Dependent'')]"

text \<open>
  \<open>get_intensity\<close>: the first level, in the order of the table, whose half-open interval
  holds the confidence; \<open>"high"\<close> when the loop ends without one.
\<close>

fun get_intensity_loop :: "(string \<times> real \<times> real) list \<Rightarrow> real \<Rightarrow> string" where
  "get_intensity_loop [] c = ''high''"
| "get_intensity_loop ((level, low, high) # rest) c =
     (if low \<le> c \<and> c < high then level else get_intensity_loop rest c)"

definition get_intensity :: "real \<Rightarrow> string" where
  "get_intensity c = get_intensity_loop INTENSITY_THRESHOLDS c"

definition get_business_insight :: "string \<Rightarrow> BusinessInsight" where
  "get_business_insight emotion =
     (case map_of BUSINESS_INSIGHTS (lower emotion) of
        Some i \<Rightarrow> i
      | None \<Rightarrow> insight ''Monitor and follow standard procedures'' ''Low'' ''Unknown'')"

fun get_emotion_group_loop :: "(string \<times> string list) list \<Rightarrow> string \<Rightarrow> string" where
  "get_emotion_group_loop [] emotion_lower = ''unknown''"
| "get_emotion_group_loop ((grp, emotions) # rest) emotion_lower =
     (if emotion_lower \<in> set emotions then grp else get_emotion_group_loop rest emotion_lower)"

definition get_emotion_group :: "string \<Rightarrow> string" where
  "get_emotion_group emotion = get_emotion_group_loop EMOTION_GROUPS (lower emotion)"

section \<open>Prediction enrichment (\<open>SentimentEmotionModel.predict_with_details\<close>, \<open>src/model.py\<close>)\<close>

datatype py_error = ValueError | IndexError | KeyError

definition bind_err :: "py_error + 'a \<Rightarrow> ('a \<Rightarrow> py_error + 'b) \<Rightarrow> py_error + 'b" where
  "bind_err m f = (case m of Inl e \<Rightarrow> Inl e | Inr x \<Rightarrow> f x)"

text \<open>
  What \<open>predict_with_details\<close> reads of one fitted pipeline for the text: the label of
  \<open>predict\<close> (the vectorizer followed by the classifier, hence also the label that
  \<open>classifier.predict(vector)[0]\<close> gives to \<open>explain\<close>), the class list \<open>classes_\<close>, the row
  of \<open>predict_proba\<close>, and what \<open>explain\<close> reads: the rows of \<open>classifier.coef_\<close>, the
  array \<open>get_feature_names_out()\<close>, and the non-zero entries of the text's tf-idf vector
  as pairs of a column and a value, in the order of \<open>vector.nonzero()\<close>. The pipelines
  themselves are scikit-learn objects and are inputs of the model.
\<close>

record ClassifierOutput =
  predicted_label :: string
  class_labels :: "string list"
  probabilities :: "real list"
  coef_rows :: "real list list"
  feature_names :: "string list"
  text_vector :: "(nat \<times> real) list"

text \<open>\<open>list.index(x)\<close>: the first position of \<open>x\<close>, \<open>ValueError\<close> when it is absent.\<close>

fun list_index :: "'a list \<Rightarrow> 'a \<Rightarrow> py_error + nat" where
  "list_index [] x = Inl ValueError"
| "list_index (y # ys) x =
     (if y = x then Inr 0
      else (case list_index ys x of Inl e \<Rightarrow> Inl e | Inr i \<Rightarrow> Inr (Suc i)))"

text \<open>Reading an array at a position that is not negative: \<open>IndexError\<close> past the end.\<close>

definition array_get :: "'a list \<Rightarrow> nat \<Rightarrow> py_error + 'a" where
  "array_get xs i = (if i < length xs then Inr (xs ! i) else Inl IndexError)"

text \<open>
  \<open>sorted(zip(classes, probs), key=lambda x: x[1], reverse=True)\<close>: a stable sort by
  falling probability; pairs of equal probability stay in the order of the class list.
\<close>

definition sort_by_prob_desc :: "(string \<times> real) list \<Rightarrow> (string \<times> real) list" where
  "sort_by_prob_desc xs = sort_key (\<lambda>x. - snd x) xs"

text \<open>
  \<open>explain_with_coefficients\<close>. The list comprehension
  \<open>[(feature_names[idx], coef[idx] * vector[0, idx]) for idx in indices]\<close> reads the two
  arrays at every non-zero column of the vector, in this order.
\<close>

fun token_scores :: "string list \<Rightarrow> real list \<Rightarrow> (nat \<times> real) list \<Rightarrow> py_error + (string \<times> real) list" where
  "token_scores names coef [] = Inr []"
| "token_scores names coef ((idx, v) # rest) =
     (case array_get names idx of
        Inl e \<Rightarrow> Inl e
      | Inr name \<Rightarrow>
     (case array_get coef idx of
        Inl e \<Rightarrow> Inl e
      | Inr c \<Rightarrow>
     (case token_scores names coef rest of
        Inl e \<Rightarrow> Inl e
      | Inr scores \<Rightarrow> Inr ((name, c * v) # scores))))"

definition explain_with_coefficients :: "ClassifierOutput \<Rightarrow> nat \<Rightarrow> py_error + (string \<times> real) list" where
  "explain_with_coefficients pipeline top_n =
     (case list_index (class_labels pipeline) (predicted_label pipeline) of
        Inl e \<Rightarrow> Inl e
      | Inr class_id \<Rightarrow>
     (case array_get (coef_rows pipeline) class_id of
        Inl e \<Rightarrow> Inl e
      | Inr coef \<Rightarrow>
     (case token_scores (feature_names pipeline) coef (text_vector pipeline) of
        Inl e \<Rightarrow> Inl e
      | Inr scores \<Rightarrow> Inr (take top_n (sort_key (\<lambda>pair. - \<bar>snd pair\<bar>) scores)))))"

text \<open>
  The returned dictionary, without its \<open>explanation\<close> entry. The two calls of \<open>explain\<close>
  that are made for the explanation are part of the model, since what they raise is
  raised by \<open>predict_with_details\<close>; \<open>generate_explanation\<close> itself only joins strings
  and formatted floats, raises nothing, and no other entry is computed from its result.
\<close>

record EnrichedPrediction =
  sentiment :: string
  sentiment_confidence :: real
  sentiment_intensity :: string
  emotion :: string
  emotion_confidence :: real
  emotion_intensity :: string
  secondary_emotion :: "string option"
  secondary_confidence :: "real option"
  is_mixed_emotion :: bool
  sarcasm_detected :: bool
  sarcasm_confidence :: real
  sarcasm_indicators :: "string list"
  business_insight :: BusinessInsight

text \<open>The confidence of a predicted label: \<open>probs[classes.index(label)]\<close>.\<close>

definition label_confidence :: "ClassifierOutput \<Rightarrow> py_error + real" where
  "label_confidence out =
     (case list_index (class_labels out) (predicted_label out) of
        Inl e \<Rightarrow> Inl e
      | Inr i \<Rightarrow> array_get (probabilities out) i)"

text \<open>The sarcasm-driven re-interpretation of the sentiment.\<close>

definition reinterpret_sentiment :: "SarcasmResult \<Rightarrow> string \<Rightarrow> string \<Rightarrow> string" where
  "reinterpret_sentiment sarcasm_result sentiment0 emotion0 =
     (if is_sarcastic sarcasm_result \<and> confidence sarcasm_result > 0.7 then
        (if sentiment0 = ''positive'' then
           (if emotion0 \<in> set SARCASM_PRIORITY_EMOTIONS then ''negative'' else sentiment0)
         else sentiment0)
      else sentiment0)"

text \<open>
  \<open>predict_with_details\<close>. The parameter \<open>float_sub\<close> is the subtraction of two floats
  as Python evaluates it, the double nearest to the difference; the theorems hold for
  every such function. The two token lists of \<open>explain\<close> only feed the explanation.
\<close>

definition predict_with_details ::
    "(real \<Rightarrow> real \<Rightarrow> real) \<Rightarrow> string \<Rightarrow> ClassifierOutput \<Rightarrow> ClassifierOutput
       \<Rightarrow> py_error + EnrichedPrediction" where
  "predict_with_details float_sub cleaned sentiment_out emotion_out =
     (let sentiment0 = predicted_label sentiment_out;
          emotion0 = predicted_label emotion_out
      in case label_confidence sentiment_out of
           Inl e \<Rightarrow> Inl e
         | Inr sentiment_conf \<Rightarrow>
        (case label_confidence emotion_out of
           Inl e \<Rightarrow> Inl e
         | Inr emotion_conf \<Rightarrow>
        (case sort_by_prob_desc (zip (class_labels emotion_out) (probabilities emotion_out)) of
           [] \<Rightarrow> Inl IndexError
         | leading # others \<Rightarrow>
             let primary_emotion = fst leading;
                 secondary_emotion0 = (case others of [] \<Rightarrow> None | second # _ \<Rightarrow> Some (fst second));
                 secondary_conf = (case others of [] \<Rightarrow> 0.0 | second # _ \<Rightarrow> snd second);
                 is_mixed = (truthy secondary_emotion0
                               \<and> float_sub (snd leading) secondary_conf < MIXED_EMOTION_THRESHOLD);
                 sarcasm_result = detect cleaned (Some sentiment0) (Some emotion0)
             in
        (case explain_with_coefficients sentiment_out 3 of
           Inl e \<Rightarrow> Inl e
         | Inr tokens_sentiment \<Rightarrow>
        (case explain_with_coefficients emotion_out 3 of
           Inl e \<Rightarrow> Inl e
         | Inr tokens_emotion \<Rightarrow>
             Inr \<lparr> sentiment = reinterpret_sentiment sarcasm_result sentiment0 emotion0,
                   sentiment_confidence = sentiment_conf,
                   sentiment_intensity = get_intensity sentiment_conf,
                   emotion = primary_emotion,
                   emotion_confidence = emotion_conf,
                   emotion_intensity = get_intensity emotion_conf,
                   secondary_emotion = (if is_mixed then secondary_emotion0 else None),
                   secondary_confidence = (if is_mixed then Some secondary_conf else None),
                   is_mixed_emotion = is_mixed,
                   sarcasm_detected = is_sarcastic sarcasm_result,
                   sarcasm_confidence = confidence sarcasm_result,
                   sarcasm_indicators = indicators sarcasm_result,
                   business_insight = get_business_insight emotion0 \<rparr>)))))"


section \<open>Batch analysis (\<open>BatchAnalyzer\<close>, \<open>src/batch_analysis.py\<close>)\<close>

text \<open>
  One dictionary of the list given to \<open>BatchAnalyzer\<close>: the entries of an enriched
  prediction that the analyzer reads, with the text added by the caller. The sarcasm
  entries may be absent (records made before sarcasm detection existed), and so may the
  business insight, which the analyzer reads with \<open>dict.get\<close>.
\<close>

record FeedbackRow =
  row_text :: string
  row_sentiment :: string
  row_sentiment_confidence :: real
  row_emotion :: string
  row_emotion_confidence :: real
  row_is_mixed_emotion :: bool
  row_sarcasm :: "(bool \<times> real) option"
  row_business_insight :: "BusinessInsight option"

text \<open>\<open>format_prediction\<close> of \<open>app/app.py\<close>, which builds the rows of a batch.\<close>

definition format_prediction :: "string \<Rightarrow> EnrichedPrediction \<Rightarrow> FeedbackRow" where
  "format_prediction text r =
     \<lparr> row_text = text,
       row_sentiment = sentiment r,
       row_sentiment_confidence = sentiment_confidence r,
       row_emotion = emotion r,
       row_emotion_confidence = emotion_confidence r,
       row_is_mixed_emotion = is_mixed_emotion r,
       row_sarcasm = Some (sarcasm_detected r, sarcasm_confidence r),
       row_business_insight = Some (business_insight r) \<rparr>"

text \<open>
  \<open>pd.DataFrame(predictions)\<close> has one column for every key that occurs in some
  dictionary of the list, hence no column at all for the empty list.
\<close>

definition df_columns :: "FeedbackRow list \<Rightarrow> string list" where
  "df_columns predictions =
     (if predictions = [] then []
      else [''text'', ''sentiment'', ''sentiment_confidence'', ''emotion'',
            ''emotion_confidence'', ''is_mixed_emotion''] @
           (if list_ex (\<lambda>r. row_sarcasm r \<noteq> None) predictions
            then [''sarcasm_detected'', ''sarcasm_confidence''] else []) @
           (if list_ex (\<lambda>r. row_business_insight r \<noteq> None) predictions
            then [''business_insight''] else []))"

text \<open>\<open>df[name]\<close>: the column, \<open>KeyError\<close> when the frame has no such column.\<close>

definition df_getitem :: "string \<Rightarrow> (FeedbackRow \<Rightarrow> 'a) \<Rightarrow> FeedbackRow list \<Rightarrow> py_error + 'a list" where
  "df_getitem name field predictions =
     (if name \<in> set (df_columns predictions) then Inr (map field predictions)
      else Inl KeyError)"

text \<open>
  \<open>{k: v / total * 100 for k, v in counts.items()}\<close>. The order in which
  \<open>Series.value_counts()\<close> lists labels of equal count is left to pandas; the methods
  that use it take it as the parameter \<open>vc\<close>.
\<close>

definition percentages :: "(string \<times> nat) list \<Rightarrow> nat \<Rightarrow> (string \<times> real) list" where
  "percentages counts total_rows = map (\<lambda>(k, v). (k, real v / real total_rows * 100)) counts"

definition sentiment_distribution ::
    "(string list \<Rightarrow> (string \<times> nat) list) \<Rightarrow> FeedbackRow list \<Rightarrow> py_error + (string \<times> real) list" where
  "sentiment_distribution vc predictions =
     bind_err (df_getitem ''sentiment'' row_sentiment predictions)
       (\<lambda>col. Inr (percentages (vc col) (length predictions)))"

definition emotion_distribution ::
    "(string list \<Rightarrow> (string \<times> nat) list) \<Rightarrow> FeedbackRow list \<Rightarrow> py_error + (string \<times> real) list" where
  "emotion_distribution vc predictions =
     bind_err (df_getitem ''emotion'' row_emotion predictions)
       (\<lambda>col. Inr (percentages (vc col) (length predictions)))"

text \<open>
  \<open>Series.mode()\<close>: the values of the highest count, each once, sorted in ascending
  order (for strings, the order of \<open>str\<close>: character by character, a proper prefix
  first).
\<close>

definition series_mode :: "string list \<Rightarrow> string list" where
  "series_mode xs =
     sort (remdups (filter (\<lambda>x. count_list xs x = Max (set (map (count_list xs) xs))) xs))"

definition dominant_emotion :: "FeedbackRow list \<Rightarrow> py_error + string" where
  "dominant_emotion predictions =
     (if length predictions > 0 then
        bind_err (df_getitem ''emotion'' row_emotion predictions)
          (\<lambda>col. case series_mode col of [] \<Rightarrow> Inl KeyError | m # _ \<Rightarrow> Inr m)
      else Inr ''unknown'')"

definition series_mean :: "real list \<Rightarrow> real" where
  "series_mean xs = sum_list xs / real (length xs)"

definition average_confidence :: "FeedbackRow list \<Rightarrow> py_error + (real \<times> real)" where
  "average_confidence predictions =
     bind_err (df_getitem ''sentiment_confidence'' row_sentiment_confidence predictions)
       (\<lambda>scol. bind_err (df_getitem ''emotion_confidence'' row_emotion_confidence predictions)
          (\<lambda>ecol. Inr (series_mean scol, series_mean ecol)))"

text \<open>
  \<open>emotion_group_distribution\<close> also stores the groups as a new column of the frame;
  no other method reads that column.
\<close>

definition emotion_group_distribution ::
    "(string list \<Rightarrow> (string \<times> nat) list) \<Rightarrow> FeedbackRow list \<Rightarrow> py_error + (string \<times> real) list" where
  "emotion_group_distribution vc predictions =
     bind_err (df_getitem ''emotion'' row_emotion predictions)
       (\<lambda>col. Inr (percentages (vc (map get_emotion_group col)) (length predictions)))"

definition mixed_emotion_rate :: "FeedbackRow list \<Rightarrow> py_error + real" where
  "mixed_emotion_rate predictions =
     bind_err (df_getitem ''is_mixed_emotion'' row_is_mixed_emotion predictions)
       (\<lambda>col. let mixed_count = length (filter (\<lambda>b. b) col) in
          Inr (if length predictions > 0
               then real mixed_count / real (length predictions) * 100 else 0.0))"

text \<open>A row counts as sarcastic when its \<open>sarcasm_detected\<close> entry is present and true.\<close>

definition row_sarcasm_detected :: "FeedbackRow \<Rightarrow> bool" where
  "row_sarcasm_detected r = (case row_sarcasm r of None \<Rightarrow> False | Some (d, c) \<Rightarrow> d)"

definition sarcasm_rate :: "FeedbackRow list \<Rightarrow> real" where
  "sarcasm_rate predictions =
     (if ''sarcasm_detected'' \<notin> set (df_columns predictions) then 0.0
      else let sarcasm_count = length (filter row_sarcasm_detected predictions) in
        if length predictions > 0
        then real sarcasm_count / real (length predictions) * 100 else 0.0)"

record SarcasticItem =
  item_text :: string
  item_emotion :: string
  item_sentiment :: string
  item_sarcasm_confidence :: real

text \<open>
  The row filter of \<open>sarcastic_feedback\<close>:
  \<open>(sarcasm_detected == True) & (sarcasm_confidence >= threshold)\<close>; a row without
  the sarcasm entries holds NaN in both columns and fails both tests.
\<close>

definition sarcastic_row :: "real \<Rightarrow> FeedbackRow \<Rightarrow> bool" where
  "sarcastic_row threshold r =
     (case row_sarcasm r of None \<Rightarrow> False | Some (d, c) \<Rightarrow> d \<and> c \<ge> threshold)"

definition sarcastic_item :: "FeedbackRow \<Rightarrow> SarcasticItem" where
  "sarcastic_item r =
     \<lparr> item_text = row_text r, item_emotion = row_emotion r, item_sentiment = row_sentiment r,
       item_sarcasm_confidence = (case row_sarcasm r of None \<Rightarrow> 0 | Some (d, c) \<Rightarrow> c) \<rparr>"

text \<open>\<open>sarcastic_feedback\<close>; the empty frame it returns in two places is the empty list.\<close>

definition sarcastic_feedback :: "FeedbackRow list \<Rightarrow> real \<Rightarrow> SarcasticItem list" where
  "sarcastic_feedback predictions threshold =
     (if ''sarcasm_detected'' \<notin> set (df_columns predictions) then []
      else let sarcastic = filter (sarcastic_row threshold) predictions in
        if length sarcastic > 0 then map sarcastic_item sarcastic else [])"

definition sarcasm_sentiment_correlation :: "FeedbackRow list \<Rightarrow> (string \<times> real) list" where
  "sarcasm_sentiment_correlation predictions =
     (if ''sarcasm_detected'' \<notin> set (df_columns predictions) then []
      else map (\<lambda>s.
             let sentiment_df = filter (\<lambda>r. row_sentiment r = s) predictions in
             if length sentiment_df > 0
             then (s, real (length (filter row_sarcasm_detected sentiment_df))
                        / real (length sentiment_df) * 100)
             else (s, 0.0))
           [''positive'', ''negative'', ''neutral''])"

text \<open>\<open>dict(Counter(xs))\<close>: the count of every value, in the order of first occurrence.\<close>

definition counter :: "string list \<Rightarrow> (string \<times> nat) list" where
  "counter xs = map (\<lambda>k. (k, count_list xs k)) (rev (remdups (rev xs)))"

definition priority_breakdown :: "FeedbackRow list \<Rightarrow> (string \<times> nat) list" where
  "priority_breakdown predictions =
     counter (map (\<lambda>r. case row_business_insight r of None \<Rightarrow> ''Unknown'' | Some i \<Rightarrow> priority i)
                predictions)"

definition category_breakdown :: "FeedbackRow list \<Rightarrow> (string \<times> nat) list" where
  "category_breakdown predictions =
     counter (map (\<lambda>r. case row_business_insight r of None \<Rightarrow> ''Unknown'' | Some i \<Rightarrow> category i)
                predictions)"

text \<open>
  \<open>high_risk_feedback\<close> and \<open>positive_opportunities\<close>: the rows whose emotion is in the
  list and whose emotion confidence is above the threshold, in the order of the input.
\<close>

definition emotion_filter :: "string list \<Rightarrow> real \<Rightarrow> FeedbackRow list \<Rightarrow> py_error + FeedbackRow list" where
  "emotion_filter emotions threshold predictions =
     bind_err (df_getitem ''emotion'' row_emotion predictions)
       (\<lambda>ecol. bind_err (df_getitem ''emotion_confidence'' row_emotion_confidence predictions)
          (\<lambda>ccol. Inr (filter (\<lambda>r. row_emotion r \<in> set emotions
                                    \<and> row_emotion_confidence r > threshold) predictions)))"

definition high_risk_feedback :: "FeedbackRow list \<Rightarrow> real \<Rightarrow> py_error + FeedbackRow list" where
  "high_risk_feedback predictions threshold =
     emotion_filter [''anger'', ''frustration'', ''disappointment'', ''regret''] threshold predictions"

definition positive_opportunities :: "FeedbackRow list \<Rightarrow> real \<Rightarrow> py_error + FeedbackRow list" where
  "positive_opportunities predictions threshold =
     emotion_filter [''joy'', ''satisfaction'', ''gratitude'', ''trust'', ''excitement'']
       threshold predictions"

text \<open>\<open>max(d.items(), key=lambda x: x[1])[0]\<close>: the first key of the highest value.\<close>

fun first_max_key :: "string \<times> real \<Rightarrow> (string \<times> real) list \<Rightarrow> string" where
  "first_max_key best [] = fst best"
| "first_max_key best (x # xs) = first_max_key (if snd x > snd best then x else best) xs"

definition dict_get :: "(string \<times> nat) list \<Rightarrow> string \<Rightarrow> nat \<Rightarrow> nat" where
  "dict_get d k dflt = (case map_of d k of None \<Rightarrow> dflt | Some v \<Rightarrow> v)"

record SummaryReport =
  total_feedback :: nat
  dominant_sentiment :: string
  sentiment_breakdown :: "(string \<times> real) list"
  top_3_emotions :: "(string \<times> real) list"
  report_emotion_group_distribution :: "(string \<times> real) list"
  report_mixed_emotion_rate :: real
  report_sarcasm_rate :: real
  report_sarcasm_sentiment_correlation :: "(string \<times> real) list"
  report_average_confidence :: "real \<times> real"
  high_risk_count :: nat
  positive_opportunity_count :: nat
  urgent_attention_needed :: nat
  report_priority_breakdown :: "(string \<times> nat) list"
  report_category_breakdown :: "(string \<times> nat) list"

text \<open>\<open>generate_summary_report\<close>, its calls in the order the method makes them.\<close>

definition generate_summary_report ::
    "(string list \<Rightarrow> (string \<times> nat) list) \<Rightarrow> FeedbackRow list \<Rightarrow> py_error + SummaryReport" where
  "generate_summary_report vc predictions =
     (let total_rows = length predictions in
      bind_err (sentiment_distribution vc predictions) (\<lambda>sentiment_dist.
      let dominant = (case sentiment_dist of [] \<Rightarrow> ''unknown'' | x # xs \<Rightarrow> first_max_key x xs) in
      bind_err (emotion_distribution vc predictions) (\<lambda>emotion_dist.
      let top_3 = take 3 (sort_by_prob_desc emotion_dist) in
      bind_err (high_risk_feedback predictions 0.75) (\<lambda>high_risk.
      bind_err (positive_opportunities predictions 0.75) (\<lambda>positive.
      bind_err (average_confidence predictions) (\<lambda>avg_conf.
      let priority_counts = priority_breakdown predictions;
          critical_count = dict_get priority_counts ''Critical'' 0;
          high_count = dict_get priority_counts ''High'' 0;
          sarcasm_pct = sarcasm_rate predictions;
          sarcasm_correlation = sarcasm_sentiment_correlation predictions in
      bind_err (emotion_group_distribution vc predictions) (\<lambda>group_dist.
      bind_err (mixed_emotion_rate predictions) (\<lambda>mixed_rate.
      Inr \<lparr> total_feedback = total_rows,
             dominant_sentiment = dominant,
             sentiment_breakdown = sentiment_dist,
             top_3_emotions = top_3,
             report_emotion_group_distribution = group_dist,
             report_mixed_emotion_rate = mixed_rate,
             report_sarcasm_rate = sarcasm_pct,
             report_sarcasm_sentiment_correlation = sarcasm_correlation,
             report_average_confidence = avg_conf,
             high_risk_count = length high_risk,
             positive_opportunity_count = length positive,
             urgent_attention_needed = critical_count + high_count,
             report_priority_breakdown = priority_counts,
             report_category_breakdown = category_breakdown predictions \<rparr>))))))))"

section \<open>Notions of the specification\<close>

text \<open>
  The probabilities that belong to a class, the highest of them, and the highest of
  the others (one occurrence of the highest left out): the top probability and the
  second-highest probability of the claims, told without any sorting.
\<close>

definition class_probabilities :: "ClassifierOutput \<Rightarrow> real list" where
  "class_probabilities out = take (length (class_labels out)) (probabilities out)"

definition top_probability :: "real list \<Rightarrow> real" where
  "top_probability qs = Max (set qs)"

definition second_probability :: "real list \<Rightarrow> real" where
  "second_probability qs = Max (set (remove1 (Max (set qs)) qs))"

text \<open>The first position of a label in a class list.\<close>

definition first_position :: "string list \<Rightarrow> string \<Rightarrow> nat" where
  "first_position labels l = length (takeWhile (\<lambda>x. x \<noteq> l) labels)"

text \<open>
  The predicted label occurs in the class list, and the probability vector reaches the
  position of its first occurrence.
\<close>

definition well_indexed :: "ClassifierOutput \<Rightarrow> bool" where
  "well_indexed out =
     (predicted_label out \<in> set (class_labels out)
      \<and> first_position (class_labels out) (predicted_label out) < length (probabilities out))"

text \<open>
  The coefficient matrix has a row at the position of the predicted label, and every
  non-zero column of the text's vector lies within the feature names and within that
  row.
\<close>

definition explainable :: "ClassifierOutput \<Rightarrow> bool" where
  "explainable out =
     (first_position (class_labels out) (predicted_label out) < length (coef_rows out)
      \<and> list_all (\<lambda>entry. fst entry < length (feature_names out)
               \<and> fst entry < length (coef_rows out
                                       ! first_position (class_labels out) (predicted_label out)))
           (text_vector out))"


text \<open>
  ``The most frequent label, the first one met in the order of the input among those of
  the highest count.''
\<close>

definition first_most_frequent :: "string list \<Rightarrow> string option" where
  "first_most_frequent xs =
     (case filter (\<lambda>x. count_list xs x = Max (set (map (count_list xs) xs))) xs of
        [] \<Rightarrow> None
      | x # _ \<Rightarrow> Some x)"

text \<open>
  Classifier outputs for the examples: a label, the classes and their probabilities,
  with a coefficient row for every class over the two features of the text.
\<close>

definition example_output :: "string \<Rightarrow> string list \<Rightarrow> real list \<Rightarrow> ClassifierOutput" where
  "example_output l classes probs =
     \<lparr> predicted_label = l, class_labels = classes, probabilities = probs,
       coef_rows = map (\<lambda>c. [0.5, - 0.25]) classes,
       feature_names = [''great'', ''job''],
       text_vector = [(0, 0.6), (1, 0.8)] \<rparr>"

definition positive_output :: ClassifierOutput where
  "positive_output =
     example_output ''positive'' [''negative'', ''neutral'', ''positive''] [0.1, 0.2, 0.7]"

definition anger_output :: ClassifierOutput where
  "anger_output = example_output ''anger'' [''anger'', ''joy'', ''neutral''] [0.8, 0.15, 0.05]"

definition mislabelled_output :: ClassifierOutput where
  "mislabelled_output = example_output ''joy'' [''anger'', ''joy'', ''neutral''] [0.6, 0.3, 0.1]"

definition unnamed_second_output :: ClassifierOutput where
  "unnamed_second_output =
     example_output ''joy'' [''joy'', '''', ''neutral'', ''anger''] [0.5, 0.4, 0.07, 0.03]"

definition named_second_output :: ClassifierOutput where
  "named_second_output =
     example_output ''joy'' [''joy'', ''gratitude'', ''neutral'', ''anger''] [0.5, 0.4, 0.07, 0.03]"

definition joy_gratitude_output :: ClassifierOutput where
  "joy_gratitude_output =
     example_output ''joy'' [''anger'', ''gratitude'', ''joy''] [0.0, 0.48, 0.52]"

text \<open>
  A two-class emotion classifier as scikit-learn fits it: one coefficient row for the
  two classes.
\<close>

definition two_class_output :: ClassifierOutput where
  "two_class_output =
     \<lparr> predicted_label = ''joy'', class_labels = [''anger'', ''joy''],
       probabilities = [0.3, 0.7], coef_rows = [[0.5, - 0.25]],
       feature_names = [''great'', ''job''], text_vector = [(0, 0.6), (1, 0.8)] \<rparr>"


text \<open>Rows for the examples: a text, a sentiment, an emotion and the sarcasm entries.\<close>

definition example_row :: "string \<Rightarrow> string \<Rightarrow> string \<Rightarrow> (bool \<times> real) option \<Rightarrow> FeedbackRow" where
  "example_row text s e sarcasm =
     \<lparr> row_text = text, row_sentiment = s, row_sentiment_confidence = 0.9,
       row_emotion = e, row_emotion_confidence = 0.9, row_is_mixed_emotion = False,
       row_sarcasm = sarcasm, row_business_insight = Some (get_business_insight e) \<rparr>"

text \<open>Batches for the examples.\<close>

definition example_batch :: "FeedbackRow list" where
  "example_batch =
     [example_row ''a'' ''negative'' ''joy'' (Some (True, 0.825)),
      example_row ''b'' ''positive'' ''anger'' (Some (True, 0.55)),
      example_row ''c'' ''neutral'' ''neutral'' (Some (False, 0.0)),
      example_row ''d'' ''neutral'' ''neutral'' None]"

definition tie_batch :: "FeedbackRow list" where
  "tie_batch =
     [example_row ''a'' ''positive'' ''joy'' None,
      example_row ''b'' ''negative'' ''anger'' None]"

section \<open>Evaluation rules\<close>

lemmas char_defs = lower_def lower_char_def upper_char_def ascii_uppercase_def ascii_lowercase_def
  digits_def is_word_char_def is_space_char_def is_quote_char_def word_boundary_def

lemmas detector_defs = detect_sarcastic_phrases_def detect_contrast_def
  positive_found_def negative_found_def intensified_positives_def
  detect_excessive_punctuation_def detect_quoted_positives_def detect_polarity_mismatch_def
  SARCASTIC_PHRASES_def NEGATIVE_CONTEXT_def POSITIVE_SURFACE_def SARCASTIC_INTENSIFIERS_def
  negative_emotions_def re_search_def word_pattern_def spaced_pattern_def run_pattern_def

section \<open>Facts about the patterns\<close>

text \<open>
  On a lower-case text a lower-case literal matches with \<open>re.IGNORECASE\<close> exactly where
  it matches without.
\<close>

lemma lower_char_idem: "lower_char (lower_char c) = lower_char c"
  by (simp add: lower_char_def ascii_uppercase_def ascii_lowercase_def)

lemma match_literal_ignorecase:
  "map lower_char lit = lit \<Longrightarrow> map lower_char s = s \<Longrightarrow>
   match_literal True lit prev s = match_literal False lit prev s"
proof (induction lit arbitrary: prev s)
  case Nil
  then show ?case by simp
next
  case (Cons p ps)
  show ?case
  proof (cases s)
    case Nil
    then show ?thesis by simp
  next
    case (Cons c cs)
    with Cons.prems have "lower_char p = p" "lower_char c = c" "map lower_char ps = ps" "map lower_char cs = cs"
      by simp_all
    with Cons.IH [of cs "Some c"] Cons show ?thesis by simp
  qed
qed

lemma word_pattern_ignorecase:
  "map lower_char lit = lit \<Longrightarrow> map lower_char s = s \<Longrightarrow>
   word_pattern True lit prev s = word_pattern False lit prev s"
  by (simp add: word_pattern_def match_literal_ignorecase)

lemma re_search_from_ignorecase:
  "map lower_char lit = lit \<Longrightarrow> map lower_char s = s \<Longrightarrow>
   re_search_from (word_pattern True lit) prev s = re_search_from (word_pattern False lit) prev s"
proof (induction s arbitrary: prev)
  case Nil
  then show ?case by (simp add: word_pattern_ignorecase)
next
  case (Cons c cs)
  then have "map lower_char cs = cs" by simp
  with Cons show ?case by (simp add: word_pattern_ignorecase split: option.split)
qed

lemma phrases_lower: "\<forall>phrase \<in> set SARCASTIC_PHRASES. map lower_char phrase = phrase"
  by (simp add: SARCASTIC_PHRASES_def lower_char_def ascii_uppercase_def ascii_lowercase_def)

lemma detect_sarcastic_phrases_lower:
  assumes "lower t = t"
  shows "detect_sarcastic_phrases t =
     (let indicators =
            concat (map (\<lambda>phrase.
              case re_search (word_pattern False phrase) t of
                None \<Rightarrow> []
              | Some g \<Rightarrow> [''sarcastic phrase: '' @ [CHR 0x27] @ g @ [CHR 0x27]])
              SARCASTIC_PHRASES)
      in if indicators \<noteq> [] then (0.75, indicators) else (0.0, []))"
proof -
  have "map (\<lambda>phrase. case re_search (word_pattern True phrase) t of
                None \<Rightarrow> []
              | Some g \<Rightarrow> [''sarcastic phrase: '' @ [CHR 0x27] @ g @ [CHR 0x27]]) SARCASTIC_PHRASES
      = map (\<lambda>phrase. case re_search (word_pattern False phrase) t of
                None \<Rightarrow> []
              | Some g \<Rightarrow> [''sarcastic phrase: '' @ [CHR 0x27] @ g @ [CHR 0x27]]) SARCASTIC_PHRASES"
    using assms phrases_lower
    by (intro map_cong) (simp_all add: re_search_def re_search_from_ignorecase lower_def)
  then show ?thesis unfolding detect_sarcastic_phrases_def by (simp only:)
qed


text \<open>
  An intensifier followed by white space and a positive word is in particular the
  intensifier as a word of its own: a text without any intensifier has no intensified
  positive.
\<close>

lemma not_word_if_space: "is_space_char c \<Longrightarrow> \<not> is_word_char c"
  by (auto simp: is_space_char_def is_word_char_def ascii_uppercase_def ascii_lowercase_def digits_def)

lemma match_literal_last:
  "match_literal False lit prev s = Some (prev', rest) \<Longrightarrow> lit \<noteq> [] \<Longrightarrow> prev' = Some (last lit)"
proof (induction lit arbitrary: prev s)
  case Nil
  then show ?case by simp
next
  case (Cons p ps)
  then obtain c cs where s: "s = c # cs" by (cases s) auto
  with Cons.prems have pc: "p = c" and m: "match_literal False ps (Some c) cs = Some (prev', rest)"
    by (auto split: if_splits)
  show ?case
  proof (cases ps)
    case Nil
    with m pc show ?thesis by simp
  next
    case (Cons q qs)
    with Cons.IH [OF m] show ?thesis by simp
  qed
qed

lemma spaced_pattern_word:
  assumes "a \<noteq> []" "is_word_char (last a)" "spaced_pattern a b prev s \<noteq> None"
  shows "word_pattern False a prev s \<noteq> None"
proof -
  from assms(3) obtain prev' rest where m: "match_literal False a prev s = Some (prev', rest)"
    by (auto simp: spaced_pattern_def split: option.splits)
  with assms(3) have ws: "takeWhile is_space_char rest \<noteq> []" and wb: "word_boundary prev s"
    by (auto simp: spaced_pattern_def Let_def split: option.splits if_splits)
  from ws obtain c cs where rest: "rest = c # cs" and "is_space_char c"
    by (cases rest) (auto split: if_splits)
  then have "\<not> is_word_char c" by (simp add: not_word_if_space)
  moreover from match_literal_last [OF m assms(1)] have "prev' = Some (last a)" .
  ultimately have "word_boundary prev' rest"
    using assms(2) rest by (simp add: word_boundary_def)
  with m wb show ?thesis by (simp add: word_pattern_def)
qed

lemma re_search_from_mono:
  assumes "\<And>prev s. m1 prev s \<noteq> None \<Longrightarrow> m2 prev s \<noteq> None"
  shows "re_search_from m1 prev s \<noteq> None \<Longrightarrow> re_search_from m2 prev s \<noteq> None"
proof (induction s arbitrary: prev)
  case Nil
  then show ?case using assms by simp
next
  case (Cons c cs)
  then show ?case using assms [of prev "c # cs"] by (auto split: option.splits)
qed

lemma intensifiers_words:
  "\<forall>a \<in> set SARCASTIC_INTENSIFIERS. a \<noteq> [] \<and> is_word_char (last a)"
  by (simp add: SARCASTIC_INTENSIFIERS_def is_word_char_def ascii_lowercase_def)

lemma no_intensifier:
  assumes "\<forall>a \<in> set SARCASTIC_INTENSIFIERS. re_search (word_pattern False a) t = None"
  shows "intensified_positives t = []"
proof -
  have "re_search (spaced_pattern a b) t = None" if "a \<in> set SARCASTIC_INTENSIFIERS" for a b
  proof (rule ccontr)
    assume "re_search (spaced_pattern a b) t \<noteq> None"
    moreover from that intensifiers_words have "a \<noteq> []" "is_word_char (last a)" by auto
    ultimately have "re_search (word_pattern False a) t \<noteq> None"
      unfolding re_search_def
      by (elim re_search_from_mono [rotated]) (rule spaced_pattern_word)
    with assms that show False by simp
  qed
  then show ?thesis by (simp add: intensified_positives_def)
qed

section \<open>The detectors on the text of Scenario 1\<close>

lemmas search_defs = re_search_def word_pattern_def run_pattern_def

lemma order_text_lower:
  "lower ''Great job! You've managed to mess up my order three times in a row.''
     = ''great job! you've managed to mess up my order three times in a row.''"
  by (simp add: lower_def lower_char_def ascii_uppercase_def ascii_lowercase_def)

lemma order_text_is_lower:
  "lower ''great job! you've managed to mess up my order three times in a row.''
     = ''great job! you've managed to mess up my order three times in a row.''"
  by (simp add: lower_def lower_char_def ascii_uppercase_def ascii_lowercase_def)

lemma order_text_phrases:
  "detect_sarcastic_phrases ''great job! you've managed to mess up my order three times in a row.''
     = (0.75, [''sarcastic phrase: '' @ [CHR 0x27] @ ''great job'' @ [CHR 0x27]])"
  by (simp add: detect_sarcastic_phrases_lower [OF order_text_is_lower]
      SARCASTIC_PHRASES_def search_defs char_defs)

lemma order_text_positive:
  "positive_found ''great job! you've managed to mess up my order three times in a row.'' = [''great'']"
  by (simp add: positive_found_def POSITIVE_SURFACE_def search_defs char_defs)

lemma order_text_negative:
  "negative_found ''great job! you've managed to mess up my order three times in a row.'' = []"
  by (simp add: negative_found_def NEGATIVE_CONTEXT_def search_defs char_defs)

lemma order_text_intensified:
  "intensified_positives ''great job! you've managed to mess up my order three times in a row.'' = []"
  by (rule no_intensifier) (simp add: SARCASTIC_INTENSIFIERS_def search_defs char_defs)

lemma order_text_contrast:
  "detect_contrast ''great job! you've managed to mess up my order three times in a row.'' = (0, [])"
  by (simp add: detect_contrast_def order_text_positive order_text_negative order_text_intensified)

lemma order_text_punctuation:
  "detect_excessive_punctuation ''Great job! You've managed to mess up my order three times in a row.'' = (0, [])"
  by (simp add: detect_excessive_punctuation_def search_defs)

lemma order_text_quoted:
  "detect_quoted_positives ''Great job! You've managed to mess up my order three times in a row.'' = (0, [])"
  by (simp add: detect_quoted_positives_def order_text_lower char_defs)

section \<open>The intensity bands\<close>

text \<open>
  Claim C4. \<open>get_intensity\<close> returns one of the three levels for every confidence
  between 0 and 1: \<open>low\<close> below 0.55, \<open>medium\<close> from 0.55 up to but not including 0.75,
  \<open>high\<close> from 0.75 to 1; in particular 0.55 is \<open>medium\<close>, 0.75 and 1.0 are \<open>high\<close>.
\<close>

theorem get_intensity_bands:
  "0 \<le> c \<and> c \<le> 1 \<longrightarrow>
     get_intensity c \<in> {''low'', ''medium'', ''high''}
     \<and> (c < 0.55 \<longrightarrow> get_intensity c = ''low'')
     \<and> (0.55 \<le> c \<and> c < 0.75 \<longrightarrow> get_intensity c = ''medium'')
     \<and> (0.75 \<le> c \<longrightarrow> get_intensity c = ''high'')
     \<and> get_intensity 0.55 = ''medium'' \<and> get_intensity 0.75 = ''high''
     \<and> get_intensity 1.0 = ''high''"
  by (simp add: get_intensity_def INTENSITY_THRESHOLDS_def)

theorem get_intensity_bands_witness:
  "(0::real) \<le> 0.6 \<and> (0.6::real) \<le> 1 \<and> get_intensity 0.6 = ''medium''"
  using get_intensity_bands [of "0.6"] by simp

section \<open>The fusion of the sarcasm signals\<close>

lemma phrase_score_cases: "fst (detect_sarcastic_phrases t) = 0 \<or> fst (detect_sarcastic_phrases t) = 0.75"
  by (simp add: detect_sarcastic_phrases_def Let_def)

lemma contrast_score_cases:
  "fst (detect_contrast t) = 0 \<or> fst (detect_contrast t) = 0.7 \<or> fst (detect_contrast t) = 0.65"
  by (simp add: detect_contrast_def Let_def split: list.split)

lemma punctuation_score_cases:
  "fst (detect_excessive_punctuation t) = 0 \<or> fst (detect_excessive_punctuation t) = 0.55"
  by (simp add: detect_excessive_punctuation_def Let_def)

lemma quoted_score_cases:
  "fst (detect_quoted_positives t) = 0 \<or> fst (detect_quoted_positives t) = 0.7"
  by (simp add: detect_quoted_positives_def Let_def)

lemma mismatch_score_cases:
  "fst (detect_polarity_mismatch s e) = 0 \<or> fst (detect_polarity_mismatch s e) = 0.6"
  by (simp add: detect_polarity_mismatch_def)

lemma detector_scores_nonneg: "x \<in> set (detector_scores t s e) \<Longrightarrow> 0 \<le> x"
  using phrase_score_cases [of "lower t"] contrast_score_cases [of "lower t"]
    punctuation_score_cases [of t] quoted_score_cases [of t]
    mismatch_score_cases [of "the s" "the e"]
  by (auto simp: detector_scores_def split: if_splits)

lemma fst_add_signal:
  "fst (add_signal sig acc) = fst acc @ (if fst sig > 0 then [fst sig] else [])"
  by (simp add: add_signal_def)

lemma collect_signals_scores:
  "fst (collect_signals t s e) = fired_scores t s e"
proof -
  have pos: "\<And>x. x \<in> set (detector_scores t s e) \<Longrightarrow> (x > 0) = (x \<noteq> 0)"
    using detector_scores_nonneg [of _ t s e] by fastforce
  have "fst (collect_signals t s e) = filter (\<lambda>x. x > 0) (detector_scores t s e)"
    by (simp add: collect_signals_def detector_scores_def fst_add_signal Let_def)
  also have "\<dots> = filter (\<lambda>x. x \<noteq> 0) (detector_scores t s e)"
    using pos by (intro filter_cong) auto
  finally show ?thesis by (simp add: fired_scores_def)
qed

lemma detect_fuse:
  "is_sarcastic (detect t s e) = fst (fuse (fired_scores t s e))"
  "confidence (detect t s e) = snd (fuse (fired_scores t s e))"
  using collect_signals_scores [of t s e]
  by (simp_all add: detect_def case_prod_beta)

lemma detect_from_scores:
  "is_sarcastic (detect t s e) = fst (fuse (filter (\<lambda>x. x \<noteq> 0) (detector_scores t s e)))"
  "confidence (detect t s e) = snd (fuse (filter (\<lambda>x. x \<noteq> 0) (detector_scores t s e)))"
  by (simp_all add: detect_fuse fired_scores_def)

lemma fuse_nonempty:
  assumes "xs \<noteq> []"
  shows "snd (fuse xs) = min (sum_list xs / real (length xs) + min (0.15 * (real (length xs) - 1)) 0.3) 0.95"
    and "fst (fuse xs) \<longleftrightarrow> snd (fuse xs) > 0.5"
proof -
  from assms have len: "real (length xs - 1) = real (length xs) - 1"
    by (cases xs) simp_all
  from assms show "snd (fuse xs) = min (sum_list xs / real (length xs) + min (0.15 * (real (length xs) - 1)) 0.3) 0.95"
    unfolding fuse_def Let_def len by (simp only: if_True simp_thms snd_conv)
  from assms show "fst (fuse xs) \<longleftrightarrow> snd (fuse xs) > 0.5"
    unfolding fuse_def Let_def by (simp only: if_True simp_thms snd_conv fst_conv)
qed

text \<open>
  Claim C1. For every text and every optional sentiment and emotion: when no detector
  fired, \<open>detect\<close> answers not sarcastic with confidence 0; otherwise the confidence is
  the mean of the fired scores plus the bonus \<open>min (0.15 * (n - 1)) 0.3\<close>, capped at
  0.95, and the text is sarcastic exactly when the confidence is above 0.5.
\<close>

theorem detect_fusion:
  "(fired_scores t s e = [] \<longrightarrow>
      \<not> is_sarcastic (detect t s e) \<and> confidence (detect t s e) = 0.0)
   \<and> (fired_scores t s e \<noteq> [] \<longrightarrow>
      confidence (detect t s e) =
        min (sum_list (fired_scores t s e) / real (length (fired_scores t s e))
             + min (0.15 * (real (length (fired_scores t s e)) - 1)) 0.3) 0.95
      \<and> (is_sarcastic (detect t s e) \<longleftrightarrow> confidence (detect t s e) > 0.5))"
proof (cases "fired_scores t s e = []")
  case True
  then show ?thesis by (simp add: detect_fuse fuse_def)
next
  case False
  from fuse_nonempty [OF False] False show ?thesis
    unfolding detect_fuse by blast
qed

lemma wow_intensified: "intensified_positives ''wow!!'' = []"
  by (rule no_intensifier) (simp add: SARCASTIC_INTENSIFIERS_def search_defs char_defs)

lemma wow_is_lower: "lower ''wow!!'' = ''wow!!''"
  by (simp add: char_defs)

lemma wow_scores: "detector_scores ''wow!!'' None None = [0, 0, 0.55, 0, 0]"
  by (simp add: detector_scores_def wow_is_lower detect_sarcastic_phrases_lower [OF wow_is_lower]
      detect_contrast_def positive_found_def negative_found_def wow_intensified
      detect_excessive_punctuation_def detect_quoted_positives_def
      SARCASTIC_PHRASES_def NEGATIVE_CONTEXT_def POSITIVE_SURFACE_def
      search_defs char_defs truthy_def)

theorem detect_fusion_witness:
  "fired_scores ''wow!!'' None None = [0.55]
   \<and> confidence (detect ''wow!!'' None None) = 0.55
   \<and> is_sarcastic (detect ''wow!!'' None None)"
  using detect_fusion [of "''wow!!''" None None]
  by (simp add: fired_scores_def wow_scores)

text \<open>
  Claim C10. When the punctuation detector fires on a text and no other detector does,
  \<open>detect\<close> flags the text as sarcastic with confidence exactly 0.55: one weak signal
  is enough.
\<close>

theorem punctuation_alone_flags_sarcasm:
  assumes "fst (detect_excessive_punctuation t) \<noteq> 0"
    and "fst (detect_sarcastic_phrases (lower t)) = 0"
    and "fst (detect_contrast (lower t)) = 0"
    and "fst (detect_quoted_positives t) = 0"
    and "(if truthy s \<and> truthy e then fst (detect_polarity_mismatch (the s) (the e)) else 0) = 0"
  shows "is_sarcastic (detect t s e) \<and> confidence (detect t s e) = 0.55"
proof -
  from assms(1) punctuation_score_cases [of t]
  have "fst (detect_excessive_punctuation t) = 0.55" by blast
  with assms(2-5) have "detector_scores t s e = [0, 0, 0.55, 0, 0]"
    unfolding detector_scores_def by (simp only:)
  then show ?thesis
    by (simp add: detect_from_scores fuse_def)
qed

theorem punctuation_alone_flags_sarcasm_witness:
  "fst (detect_excessive_punctuation ''wow!!'') \<noteq> 0
   \<and> is_sarcastic (detect ''wow!!'' None None)
   \<and> confidence (detect ''wow!!'' None None) = 0.55"
proof -
  have s: "[fst (detect_sarcastic_phrases (lower ''wow!!'')), fst (detect_contrast (lower ''wow!!'')),
         fst (detect_excessive_punctuation ''wow!!''), fst (detect_quoted_positives ''wow!!''),
         (if truthy None \<and> truthy None then fst (detect_polarity_mismatch (the None) (the None)) else 0)]
        = [0, 0, 0.55, 0, 0]"
    using wow_scores unfolding detector_scores_def .
  then have "fst (detect_excessive_punctuation ''wow!!'') \<noteq> 0"
    "fst (detect_sarcastic_phrases (lower ''wow!!'')) = 0"
    "fst (detect_contrast (lower ''wow!!'')) = 0"
    "fst (detect_quoted_positives ''wow!!'') = 0"
    "(if truthy None \<and> truthy None then fst (detect_polarity_mismatch (the None) (the None)) else 0) = (0::real)"
    by simp_all
  from this(1) punctuation_alone_flags_sarcasm [OF this] show ?thesis
    by (intro conjI) simp_all
qed

text \<open>A text that holds two exclamation marks in a row makes the punctuation detector fire.\<close>

lemma re_search_from_at:
  assumes "\<And>prev. m prev s \<noteq> None"
  shows "re_search_from m prev (a @ s) \<noteq> None"
proof (induction a arbitrary: prev)
  case Nil
  show ?case using assms [of prev] by (cases s) (auto split: option.splits)
next
  case (Cons c cs)
  then show ?case by (auto split: option.splits)
qed

lemma double_exclamation_fires:
  "fst (detect_excessive_punctuation (a @ ''!!'' @ b)) = 0.55"
proof -
  have "re_search (run_pattern (\<lambda>c. c = CHR ''!'') 2) (a @ ''!!'' @ b) \<noteq> None"
    unfolding re_search_def by (rule re_search_from_at) (simp add: run_pattern_def)
  then show ?thesis by (simp add: detect_excessive_punctuation_def)
qed

section \<open>The enrichment of a prediction\<close>

text \<open>The steps of the enrichment that can fail, each with the condition of its failure.\<close>

lemma list_index_first_position:
  "list_index xs x = (if x \<in> set xs then Inr (first_position xs x) else Inl ValueError)"
  by (induction xs) (auto simp: first_position_def)

lemma label_confidence_cases:
  "label_confidence out =
     (if predicted_label out \<notin> set (class_labels out) then Inl ValueError
      else if well_indexed out
        then Inr (probabilities out ! first_position (class_labels out) (predicted_label out))
      else Inl IndexError)"
  by (simp add: label_confidence_def well_indexed_def list_index_first_position array_get_def)

lemma token_scores_cases:
  "token_scores names coef entries =
     (if list_all (\<lambda>entry. fst entry < length names \<and> fst entry < length coef) entries
      then Inr (map (\<lambda>entry. (names ! fst entry, coef ! fst entry * snd entry)) entries)
      else Inl IndexError)"
  by (induction names coef entries rule: token_scores.induct) (auto simp: array_get_def)

lemma explain_with_coefficients_cases:
  "explain_with_coefficients out n =
     (if predicted_label out \<notin> set (class_labels out) then Inl ValueError
      else if explainable out
        then Inr (take n (sort_key (\<lambda>pair. - \<bar>snd pair\<bar>)
               (map (\<lambda>entry. (feature_names out ! fst entry,
                                coef_rows out ! first_position (class_labels out) (predicted_label out)
                                  ! fst entry * snd entry))
                  (text_vector out))))
      else Inl IndexError)"
  by (auto simp: explain_with_coefficients_def explainable_def list_index_first_position
      array_get_def token_scores_cases)

lemma well_indexed_ranking:
  assumes "well_indexed out"
  shows "sort_by_prob_desc (zip (class_labels out) (probabilities out)) \<noteq> []"
proof -
  from assms have "class_labels out \<noteq> []" "probabilities out \<noteq> []"
    by (auto simp: well_indexed_def)
  then have "zip (class_labels out) (probabilities out) \<noteq> []"
    by (cases "class_labels out"; cases "probabilities out") simp_all
  then show ?thesis
    unfolding sort_by_prob_desc_def by (metis length_sort list.size(3) length_0_conv)
qed

text \<open>The outcome of the enrichment, case by case in the order of the code.\<close>

lemma predict_with_details_cases:
  "predict_with_details fs t so eo =
     (if predicted_label so \<notin> set (class_labels so) then Inl ValueError
      else if \<not> well_indexed so then Inl IndexError
      else if predicted_label eo \<notin> set (class_labels eo) then Inl ValueError
      else if \<not> well_indexed eo then Inl IndexError
      else if \<not> explainable so then Inl IndexError
      else if \<not> explainable eo then Inl IndexError
      else Inr (projr (predict_with_details fs t so eo)))"
proof -
  have "sort_by_prob_desc (zip (class_labels eo) (probabilities eo)) \<noteq> []" if "well_indexed eo"
    using that by (rule well_indexed_ranking)
  then show ?thesis
    by (auto simp: predict_with_details_def Let_def label_confidence_cases
        explain_with_coefficients_cases well_indexed_def split: list.splits)
qed

text \<open>The classifier outputs of the examples.\<close>

lemmas output_defs = example_output_def positive_output_def anger_output_def mislabelled_output_def
  unnamed_second_output_def named_second_output_def joy_gratitude_output_def two_class_output_def

lemma example_outputs_well_indexed:
  "well_indexed positive_output" "well_indexed anger_output" "well_indexed mislabelled_output"
  "well_indexed unnamed_second_output" "well_indexed named_second_output"
  "well_indexed joy_gratitude_output" "well_indexed two_class_output"
  by (simp_all add: well_indexed_def first_position_def output_defs)

lemma example_outputs_explainable:
  "explainable positive_output" "explainable anger_output" "explainable mislabelled_output"
  "explainable unnamed_second_output" "explainable named_second_output"
  "explainable joy_gratitude_output"
  by (simp_all add: explainable_def first_position_def output_defs)

lemma two_class_not_explainable: "\<not> explainable two_class_output"
  by (simp add: explainable_def first_position_def output_defs)

lemma example_labels:
  "predicted_label positive_output = ''positive''" "predicted_label anger_output = ''anger''"
  by (simp_all add: output_defs)

lemma predict_with_details_returns:
  assumes "well_indexed so" "well_indexed eo" "explainable so" "explainable eo"
  shows "predict_with_details fs t so eo = Inr (projr (predict_with_details fs t so eo))"
  using assms predict_with_details_cases [of fs t so eo]
  by (metis well_indexed_def)

lemma predict_with_details_sentiment:
  assumes "predict_with_details fs t so eo = Inr r"
  shows "sentiment r = reinterpret_sentiment (detect t (Some (predicted_label so)) (Some (predicted_label eo)))
                        (predicted_label so) (predicted_label eo)"
    and "sarcasm_detected r = is_sarcastic (detect t (Some (predicted_label so)) (Some (predicted_label eo)))"
    and "sarcasm_confidence r = confidence (detect t (Some (predicted_label so)) (Some (predicted_label eo)))"
  using assms
  by (auto simp: predict_with_details_def Let_def split: sum.splits list.splits)

lemma predict_with_details_confidences:
  assumes "predict_with_details fs t so eo = Inr r"
  shows "sentiment_confidence r = probabilities so ! first_position (class_labels so) (predicted_label so)"
    and "emotion_confidence r = probabilities eo ! first_position (class_labels eo) (predicted_label eo)"
  using assms
  by (auto simp: predict_with_details_def Let_def label_confidence_cases
      split: sum.splits list.splits if_splits)

text \<open>
  Claim C2. The final sentiment differs from the predicted one only when sarcasm was
  detected with confidence above 0.7, the predicted sentiment is \<open>positive\<close> and the
  predicted emotion is one of anger, frustration, annoyance and disappointment; it is
  then \<open>negative\<close>, and it is \<open>negative\<close> whenever these conditions hold. A predicted
  \<open>negative\<close> never becomes \<open>positive\<close>.
\<close>

theorem sentiment_override_one_way:
  assumes "predict_with_details fs t so eo = Inr r"
  shows "(sentiment r \<noteq> predicted_label so \<longrightarrow>
            sarcasm_detected r \<and> sarcasm_confidence r > 0.7
            \<and> predicted_label so = ''positive''
            \<and> predicted_label eo \<in> {''anger'', ''frustration'', ''annoyance'', ''disappointment''}
            \<and> sentiment r = ''negative'')
       \<and> (sarcasm_detected r \<and> sarcasm_confidence r > 0.7
            \<and> predicted_label so = ''positive''
            \<and> predicted_label eo \<in> {''anger'', ''frustration'', ''annoyance'', ''disappointment''}
          \<longrightarrow> sentiment r = ''negative'')
       \<and> (predicted_label so = ''negative'' \<longrightarrow> sentiment r \<noteq> ''positive'')"
proof -
  define d where "d = detect t (Some (predicted_label so)) (Some (predicted_label eo))"
  have r: "sentiment r = reinterpret_sentiment d (predicted_label so) (predicted_label eo)"
    "sarcasm_detected r = is_sarcastic d" "sarcasm_confidence r = confidence d"
    unfolding d_def by (rule predict_with_details_sentiment [OF assms])+
  show ?thesis
    unfolding r reinterpret_sentiment_def SARCASM_PRIORITY_EMOTIONS_def by auto
qed

text \<open>An example: the text \<open>great job\<close> with the classifier results \<open>positive\<close> and \<open>anger\<close>.\<close>

lemma great_job_is_lower: "lower ''great job'' = ''great job''"
  by (simp add: char_defs)

lemma great_job_intensified: "intensified_positives ''great job'' = []"
  by (rule no_intensifier) (simp add: SARCASTIC_INTENSIFIERS_def search_defs char_defs)

lemma great_job_scores:
  "detector_scores ''great job'' (Some ''positive'') (Some ''anger'') = [0.75, 0, 0, 0, 0.6]"
  by (simp add: detector_scores_def great_job_is_lower
      detect_sarcastic_phrases_lower [OF great_job_is_lower]
      detect_contrast_def positive_found_def negative_found_def great_job_intensified
      detect_excessive_punctuation_def detect_quoted_positives_def detect_polarity_mismatch_def
      SARCASTIC_PHRASES_def NEGATIVE_CONTEXT_def POSITIVE_SURFACE_def negative_emotions_def
      search_defs char_defs truthy_def)

lemma great_job_detect:
  "is_sarcastic (detect ''great job'' (Some ''positive'') (Some ''anger''))"
  "confidence (detect ''great job'' (Some ''positive'') (Some ''anger'')) > 0.7"
  by (simp_all add: detect_from_scores great_job_scores fuse_def)

lemma great_job_prediction:
  "predict_with_details (-) ''great job'' positive_output anger_output
     = Inr (projr (predict_with_details (-) ''great job'' positive_output anger_output))"
  by (rule predict_with_details_returns)
    (rule example_outputs_well_indexed example_outputs_explainable)+

lemma great_job_prediction_sarcasm:
  "sarcasm_detected (projr (predict_with_details (-) ''great job'' positive_output anger_output))"
  "sarcasm_confidence (projr (predict_with_details (-) ''great job'' positive_output anger_output)) > 0.7"
  unfolding predict_with_details_sentiment(2,3) [OF great_job_prediction] example_labels
  by (rule great_job_detect)+

theorem sentiment_override_one_way_witness:
  "predict_with_details (-) ''great job'' positive_output anger_output
     = Inr (projr (predict_with_details (-) ''great job'' positive_output anger_output))
   \<and> predicted_label positive_output = ''positive''
   \<and> sentiment (projr (predict_with_details (-) ''great job'' positive_output anger_output)) = ''negative''
   \<and> sarcasm_confidence (projr (predict_with_details (-) ''great job'' positive_output anger_output)) > 0.7"
proof -
  let ?r = "projr (predict_with_details (-) ''great job'' positive_output anger_output)"
  have "predicted_label anger_output \<in> {''anger'', ''frustration'', ''annoyance'', ''disappointment''}"
    unfolding example_labels by simp
  then have "sentiment ?r = ''negative''"
    using sentiment_override_one_way [OF great_job_prediction]
      great_job_prediction_sarcasm example_labels(1)
    by blast
  then show ?thesis
    using great_job_prediction great_job_prediction_sarcasm(2) example_labels(1)
    by (intro conjI)
qed

section \<open>Mixed emotions\<close>

text \<open>
  The ranking of the code against the notions of the specification: the first pair of
  the sorted list carries the top probability, the second pair the second-highest.
\<close>

lemma ranking_sorted:
  "sorted (map (\<lambda>x. - snd x) (sort_by_prob_desc xs))"
  "mset (map snd (sort_by_prob_desc xs)) = mset (map snd xs)"
  by (simp_all add: sort_by_prob_desc_def)

lemma ranking_top:
  assumes "sort_by_prob_desc xs = leading # others"
  shows "snd leading = top_probability (map snd xs)"
proof -
  from ranking_sorted(1) [of xs] assms have le: "\<forall>y \<in> set others. snd y \<le> snd leading"
    by auto
  from ranking_sorted(2) [of xs] assms have "set (map snd xs) = set (map snd (leading # others))"
    by (metis set_mset_mset)
  then have s: "set (map snd xs) = insert (snd leading) (snd ` set others)"
    by simp
  show ?thesis
    unfolding top_probability_def s using le
    by (intro Max_eqI [symmetric]) auto
qed

lemma ranking_second:
  assumes "sort_by_prob_desc xs = leading # second # rest"
  shows "snd second = second_probability (map snd xs)"
proof -
  let ?m = "Max (set (map snd xs))"
  from ranking_top [OF assms] have m: "?m = snd leading"
    by (simp add: top_probability_def)
  from ranking_sorted(1) [of xs] assms have le: "\<forall>y \<in> set rest. snd y \<le> snd second"
    by auto
  have "mset (remove1 ?m (map snd xs)) = mset (map snd xs) - {#?m#}"
    by simp
  also have "\<dots> = mset (map snd (leading # second # rest)) - {#?m#}"
    using ranking_sorted(2) [of xs] assms by simp
  also have "\<dots> = mset (map snd (second # rest))"
    using m by simp
  finally have "set (remove1 ?m (map snd xs)) = set (map snd (second # rest))"
    by (metis set_mset_mset)
  then have s: "set (remove1 ?m (map snd xs)) = insert (snd second) (snd ` set rest)"
    by simp
  show ?thesis
    unfolding second_probability_def s using le
    by (intro Max_eqI [symmetric]) auto
qed

lemma class_probabilities_zip:
  "map snd (zip (class_labels out) (probabilities out)) = class_probabilities out"
  by (simp add: class_probabilities_def map_snd_zip_take min_def take_all)

lemma ranking_length:
  "length (sort_by_prob_desc (zip (class_labels out) (probabilities out)))
     = length (class_probabilities out)"
  by (simp add: sort_by_prob_desc_def class_probabilities_def)

lemma ranking_labels:
  "x \<in> set (sort_by_prob_desc (zip (class_labels out) (probabilities out)))
     \<Longrightarrow> fst x \<in> set (class_labels out)"
  by (cases x) (auto simp: sort_by_prob_desc_def dest: set_zip_leftD)

text \<open>The mixed-emotion flag and the secondary entries of a successful enrichment.\<close>

lemma predict_with_details_mixed:
  assumes "predict_with_details fs t so eo = Inr r"
    and "sort_by_prob_desc (zip (class_labels eo) (probabilities eo)) = leading # others"
  shows "is_mixed_emotion r \<longleftrightarrow>
           (\<exists>second rest. others = second # rest \<and> fst second \<noteq> []
              \<and> fs (snd leading) (snd second) < 0.15)"
    and "secondary_emotion r \<noteq> None \<longleftrightarrow> is_mixed_emotion r"
    and "secondary_confidence r \<noteq> None \<longleftrightarrow> is_mixed_emotion r"
  using assms
  by (auto simp: predict_with_details_def Let_def truthy_def MIXED_EMOTION_THRESHOLD_def
      split: sum.splits list.splits if_splits)

text \<open>
  In every enriched prediction the flag is set exactly when both secondary entries are
  present, and the two entries are present together or not at all.
\<close>

lemma secondary_entries_with_flag:
  assumes "predict_with_details fs t so eo = Inr r"
  shows "(is_mixed_emotion r \<longleftrightarrow> secondary_emotion r \<noteq> None \<and> secondary_confidence r \<noteq> None)
       \<and> (secondary_emotion r \<noteq> None \<longleftrightarrow> secondary_confidence r \<noteq> None)"
proof -
  from assms have "well_indexed eo"
    by (metis predict_with_details_cases sum.distinct(1))
  then obtain leading others
    where "sort_by_prob_desc (zip (class_labels eo) (probabilities eo)) = leading # others"
    using well_indexed_ranking [of eo] by (auto simp: neq_Nil_conv)
  from predict_with_details_mixed(2,3) [OF assms this] show ?thesis by blast
qed

text \<open>
  When no class has the empty string as its label, the flag is set exactly when a
  second class exists and the difference of the top and the second-highest
  probability, as Python rounds it, is below 0.15.
\<close>

lemma mixed_flag_named_labels:
  assumes "predict_with_details fs t so eo = Inr r" and "[] \<notin> set (class_labels eo)"
  shows "is_mixed_emotion r \<longleftrightarrow>
           2 \<le> length (class_probabilities eo)
           \<and> fs (top_probability (class_probabilities eo))
                 (second_probability (class_probabilities eo)) < 0.15"
proof -
  let ?xs = "zip (class_labels eo) (probabilities eo)"
  from assms(1) have "well_indexed eo"
    by (metis predict_with_details_cases sum.distinct(1))
  then obtain leading others where l: "sort_by_prob_desc ?xs = leading # others"
    using well_indexed_ranking [of eo] by (auto simp: neq_Nil_conv)
  note m = predict_with_details_mixed(1) [OF assms(1) l]
  show ?thesis
  proof (cases others)
    case Nil
    with l have "length (class_probabilities eo) = 1"
      using ranking_length [of eo] by simp
    with m Nil show ?thesis by simp
  next
    case (Cons second rest)
    with l have s: "sort_by_prob_desc ?xs = leading # second # rest" by simp
    then have "second \<in> set (sort_by_prob_desc ?xs)" by simp
    with assms(2) have named: "fst second \<noteq> []"
      using ranking_labels [of second eo] by auto
    from s have len: "2 \<le> length (class_probabilities eo)"
      using ranking_length [of eo] by simp
    from ranking_top [OF l] ranking_second [OF s]
    have "snd leading = top_probability (class_probabilities eo)"
      "snd second = second_probability (class_probabilities eo)"
      by (simp_all add: class_probabilities_zip)
    with m Cons named len show ?thesis by simp
  qed
qed


lemma named_second_prediction:
  "predict_with_details fs [] positive_output named_second_output
     = Inr (projr (predict_with_details fs [] positive_output named_second_output))"
  by (rule predict_with_details_returns)
    (rule example_outputs_well_indexed example_outputs_explainable)+

lemma example_rankings:
  "sort_by_prob_desc (zip (class_labels unnamed_second_output) (probabilities unnamed_second_output))
     = [(''joy'', 0.5), ('''', 0.4), (''neutral'', 0.07), (''anger'', 0.03)]"
  "sort_by_prob_desc (zip (class_labels named_second_output) (probabilities named_second_output))
     = [(''joy'', 0.5), (''gratitude'', 0.4), (''neutral'', 0.07), (''anger'', 0.03)]"
  "sort_by_prob_desc (zip (class_labels joy_gratitude_output) (probabilities joy_gratitude_output))
     = [(''joy'', 0.52), (''gratitude'', 0.48), (''anger'', 0.0)]"
  by (simp_all add: sort_by_prob_desc_def output_defs)




text \<open>
  The same probabilities with a named second class are flagged, once the rounded
  difference of 0.5 and 0.4 is below the threshold.
\<close>

lemma mixed_emotion_named_second:
  "fs 0.5 0.4 < 0.15 \<Longrightarrow>
   is_mixed_emotion (projr (predict_with_details fs [] positive_output named_second_output))"
  unfolding predict_with_details_mixed(1) [OF named_second_prediction example_rankings(2)]
  by simp

section \<open>Malformed classifier outputs\<close>

text \<open>
  Claim C5, amended. The enrichment never compares the probability of the predicted
  label with the highest probability. It raises \<open>ValueError\<close> exactly when a predicted
  label is missing from its class list, and \<open>IndexError\<close> exactly when the probability
  vector does not reach the position of a predicted label or when \<open>explain\<close> reads past
  the coefficient rows, a coefficient row or the feature names; the sentiment output
  is read before the emotion output, the probabilities before the coefficients. It
  raises nothing else, and in every other case it returns a prediction whose two
  confidences are the probabilities of the predicted labels, whatever the highest
  probability is.
\<close>

theorem enrichment_rejections:
  "(predict_with_details fs t so eo = Inl ValueError \<longleftrightarrow>
      predicted_label so \<notin> set (class_labels so)
      \<or> (well_indexed so \<and> predicted_label eo \<notin> set (class_labels eo)))
   \<and> (predict_with_details fs t so eo = Inl IndexError \<longleftrightarrow>
      (predicted_label so \<in> set (class_labels so) \<and> \<not> well_indexed so)
      \<or> (well_indexed so \<and> predicted_label eo \<in> set (class_labels eo) \<and> \<not> well_indexed eo)
      \<or> (well_indexed so \<and> well_indexed eo \<and> \<not> (explainable so \<and> explainable eo)))
   \<and> predict_with_details fs t so eo \<noteq> Inl KeyError
   \<and> ((\<exists>r. predict_with_details fs t so eo = Inr r) \<longleftrightarrow>
        well_indexed so \<and> well_indexed eo \<and> explainable so \<and> explainable eo)
   \<and> (predict_with_details fs t so eo = Inr r \<longrightarrow>
        sentiment_confidence r
          = probabilities so ! first_position (class_labels so) (predicted_label so)
        \<and> emotion_confidence r
          = probabilities eo ! first_position (class_labels eo) (predicted_label eo))"
proof -
  have in_classes: "well_indexed out \<Longrightarrow> predicted_label out \<in> set (class_labels out)" for out
    by (simp add: well_indexed_def)
  have "predict_with_details fs t so eo = Inr r \<longrightarrow>
        sentiment_confidence r
          = probabilities so ! first_position (class_labels so) (predicted_label so)
        \<and> emotion_confidence r
          = probabilities eo ! first_position (class_labels eo) (predicted_label eo)"
    using predict_with_details_confidences [of fs t so eo r] by blast
  moreover have "predict_with_details fs t so eo = Inl ValueError \<longleftrightarrow>
      predicted_label so \<notin> set (class_labels so)
      \<or> (well_indexed so \<and> predicted_label eo \<notin> set (class_labels eo))"
    using in_classes [of so] by (subst predict_with_details_cases) auto
  moreover have "predict_with_details fs t so eo = Inl IndexError \<longleftrightarrow>
      (predicted_label so \<in> set (class_labels so) \<and> \<not> well_indexed so)
      \<or> (well_indexed so \<and> predicted_label eo \<in> set (class_labels eo) \<and> \<not> well_indexed eo)
      \<or> (well_indexed so \<and> well_indexed eo \<and> \<not> (explainable so \<and> explainable eo))"
    using in_classes [of so] in_classes [of eo] by (subst predict_with_details_cases) auto
  moreover have "predict_with_details fs t so eo \<noteq> Inl KeyError"
    by (subst predict_with_details_cases) auto
  moreover have "(\<exists>r. predict_with_details fs t so eo = Inr r) \<longleftrightarrow>
        well_indexed so \<and> well_indexed eo \<and> explainable so \<and> explainable eo"
    using in_classes [of so] in_classes [of eo]
    by (subst predict_with_details_cases) auto
  ultimately show ?thesis by (intro conjI)
qed

lemma mislabelled_prediction:
  "predict_with_details (-) [] positive_output mislabelled_output
     = Inr (projr (predict_with_details (-) [] positive_output mislabelled_output))"
  by (rule predict_with_details_returns)
    (rule example_outputs_well_indexed example_outputs_explainable)+

lemma mislabelled_confidence:
  "probabilities mislabelled_output
     ! first_position (class_labels mislabelled_output) (predicted_label mislabelled_output) = 0.3"
  by (simp add: first_position_def output_defs)

theorem enrichment_rejections_witness:
  "predict_with_details (-) [] positive_output mislabelled_output
     = Inr (projr (predict_with_details (-) [] positive_output mislabelled_output))
   \<and> emotion_confidence (projr (predict_with_details (-) [] positive_output mislabelled_output)) = 0.3"
proof -
  let ?r = "projr (predict_with_details (-) [] positive_output mislabelled_output)"
  from enrichment_rejections [of "(-)" "[]" positive_output mislabelled_output ?r]
  have "predict_with_details (-) [] positive_output mislabelled_output = Inr ?r \<longrightarrow>
          emotion_confidence ?r = probabilities mislabelled_output
            ! first_position (class_labels mislabelled_output) (predicted_label mislabelled_output)"
    by blast
  with mislabelled_prediction have "emotion_confidence ?r = 0.3"
    unfolding mislabelled_confidence by blast
  with mislabelled_prediction show ?thesis by (intro conjI)
qed

text \<open>
  The claim as first stated fails: a predicted label of probability 0.3 beside a class
  of probability 0.6 is enriched without an error.
\<close>

theorem enrichment_accepts_non_maximal_label:
  "probabilities mislabelled_output
     ! first_position (class_labels mislabelled_output) (predicted_label mislabelled_output) = 0.3
   \<and> Max (set (probabilities mislabelled_output)) = 0.6
   \<and> \<not> isl (predict_with_details (-) [] positive_output mislabelled_output)"
proof -
  have "\<not> isl (predict_with_details (-) [] positive_output mislabelled_output)"
    using mislabelled_prediction by (metis sum.disc(2))
  moreover have "Max (set (probabilities mislabelled_output)) = 0.6"
    by (simp add: output_defs)
  ultimately show ?thesis using mislabelled_confidence by (intro conjI)
qed

text \<open>
  A well-indexed output that is rejected all the same: the second class of a two-class
  classifier has no coefficient row, and \<open>explain\<close> raises \<open>IndexError\<close>.
\<close>

lemma two_class_output_raises:
  "predict_with_details fs t positive_output two_class_output = Inl IndexError"
  using example_outputs_well_indexed(1,7) example_outputs_explainable(1) two_class_not_explainable
  by (subst predict_with_details_cases) (auto simp: well_indexed_def)

section \<open>Scenario 1\<close>

lemma order_text_scores:
  "detector_scores ''Great job! You've managed to mess up my order three times in a row.''
     (Some ''positive'') (Some ''anger'') = [0.75, 0, 0, 0, 0.6]"
  by (simp add: detector_scores_def order_text_lower order_text_phrases order_text_contrast
      order_text_punctuation order_text_quoted detect_polarity_mismatch_def negative_emotions_def
      truthy_def)

lemma order_text_detect:
  "is_sarcastic (detect ''Great job! You've managed to mess up my order three times in a row.''
     (Some ''positive'') (Some ''anger''))"
  "confidence (detect ''Great job! You've managed to mess up my order three times in a row.''
     (Some ''positive'') (Some ''anger'')) > 0.7"
  by (simp_all add: detect_from_scores order_text_scores fuse_def)

text \<open>
  The text holds no negative-context word and no intensifier before a positive word:
  the contrast detector does not fire on it, so the phrase and contrast signals do not
  both fire.
\<close>

theorem scenario1_contrast_silent:
  "\<not> (fst (detect_sarcastic_phrases
              (lower ''Great job! You've managed to mess up my order three times in a row.'')) \<noteq> 0
      \<and> fst (detect_contrast
              (lower ''Great job! You've managed to mess up my order three times in a row.'')) \<noteq> 0)"
  by (simp add: order_text_lower order_text_contrast)

text \<open>
  Claim C7, amended. On the text of Scenario 1 with the classifier results \<open>positive\<close>
  and \<open>anger\<close>, the known-phrase signal (0.75) and the polarity-mismatch signal (0.6)
  fire and no other; the fused confidence exceeds 0.7, and the enrichment overrides
  the final sentiment to \<open>negative\<close>.
\<close>

theorem scenario1_override:
  assumes "predicted_label so = ''positive''" "predicted_label eo = ''anger''"
    and "well_indexed so" "well_indexed eo" "explainable so" "explainable eo"
  shows "detector_scores ''Great job! You've managed to mess up my order three times in a row.''
           (Some ''positive'') (Some ''anger'') = [0.75, 0, 0, 0, 0.6]
       \<and> (\<exists>r. predict_with_details fs
                 ''Great job! You've managed to mess up my order three times in a row.'' so eo = Inr r
              \<and> sarcasm_detected r \<and> sarcasm_confidence r > 0.7
              \<and> sentiment r = ''negative'')"
proof -
  let ?t = "''Great job! You've managed to mess up my order three times in a row.''"
  from predict_with_details_returns [OF assms(3-6)]
  obtain r where r: "predict_with_details fs ?t so eo = Inr r" by blast
  have s: "sarcasm_detected r" "sarcasm_confidence r > 0.7"
    unfolding predict_with_details_sentiment(2,3) [OF r] assms(1,2)
    by (rule order_text_detect)+
  have "sentiment r = ''negative''"
    unfolding predict_with_details_sentiment(1) [OF r] assms(1,2)
    using order_text_detect by (simp add: reinterpret_sentiment_def SARCASM_PRIORITY_EMOTIONS_def)
  with s r order_text_scores show ?thesis by blast
qed

theorem scenario1_override_witness:
  "predicted_label positive_output = ''positive'' \<and> predicted_label anger_output = ''anger''
   \<and> well_indexed positive_output \<and> well_indexed anger_output
   \<and> explainable positive_output \<and> explainable anger_output
   \<and> \<not> isl (predict_with_details (-)
              ''Great job! You've managed to mess up my order three times in a row.''
              positive_output anger_output)
   \<and> sentiment (projr (predict_with_details (-)
              ''Great job! You've managed to mess up my order three times in a row.''
              positive_output anger_output)) = ''negative''"
  using scenario1_override [OF example_labels example_outputs_well_indexed(1,2)
      example_outputs_explainable(1,2), of "(-)"]
    example_labels example_outputs_well_indexed(1,2) example_outputs_explainable(1,2)
  by auto

section \<open>The empty batch\<close>

lemma df_columns_empty: "df_columns [] = []"
  by (simp add: df_columns_def)

text \<open>
  Claim C6 on the code. For the empty list of predictions the frame has no column, and
  the methods that read a column before testing the length raise \<open>KeyError\<close>:
  \<open>sentiment_distribution\<close>, \<open>emotion_distribution\<close>, \<open>emotion_group_distribution\<close>,
  \<open>mixed_emotion_rate\<close> and with them \<open>generate_summary_report\<close>. Only \<open>sarcasm_rate\<close>
  (0.0) and \<open>dominant_emotion\<close> (\<open>"unknown"\<close>) answer as the claim says.
\<close>

theorem empty_batch_raises:
  "sentiment_distribution vc [] = Inl KeyError
   \<and> emotion_distribution vc [] = Inl KeyError
   \<and> emotion_group_distribution vc [] = Inl KeyError
   \<and> mixed_emotion_rate [] = Inl KeyError
   \<and> generate_summary_report vc [] = Inl KeyError
   \<and> sarcasm_rate [] = 0.0
   \<and> dominant_emotion [] = Inr ''unknown''"
  by (simp add: sentiment_distribution_def emotion_distribution_def emotion_group_distribution_def
      mixed_emotion_rate_def generate_summary_report_def sarcasm_rate_def dominant_emotion_def
      df_getitem_def df_columns_empty bind_err_def)

section \<open>Sarcastic feedback\<close>

lemma no_sarcasm_column:
  "''sarcasm_detected'' \<notin> set (df_columns ps) \<Longrightarrow> filter (sarcastic_row t) ps = []"
proof -
  assume "''sarcasm_detected'' \<notin> set (df_columns ps)"
  then have "\<forall>r \<in> set ps. row_sarcasm r = None"
    by (auto simp: df_columns_def list_ex_iff split: if_splits)
      (metis option.exhaust surj_pair)
  then show ?thesis
    by (auto simp: filter_empty_conv sarcastic_row_def)
qed

lemma sarcastic_feedback_filter:
  "sarcastic_feedback ps t = map sarcastic_item (filter (sarcastic_row t) ps)"
  by (simp add: sarcastic_feedback_def Let_def no_sarcasm_column)

lemma sarcastic_row_mono: "t1 \<le> t2 \<Longrightarrow> sarcastic_row t2 r \<Longrightarrow> sarcastic_row t1 r"
  by (auto simp: sarcastic_row_def split: option.splits)

lemma length_filter_mono:
  "(\<And>x. P x \<Longrightarrow> Q x) \<Longrightarrow> length (filter P xs) \<le> length (filter Q xs)"
  by (induction xs) auto

text \<open>
  Claim C9. Every item returned by \<open>sarcastic_feedback\<close> for a threshold comes from a
  row with sarcasm detected and a sarcasm confidence of at least the threshold, and a
  higher threshold never returns more items.
\<close>

theorem sarcastic_feedback_threshold:
  "(\<forall>item \<in> set (sarcastic_feedback ps t).
      \<exists>r \<in> set ps. item = sarcastic_item r
        \<and> row_sarcasm r = Some (True, item_sarcasm_confidence item)
        \<and> item_sarcasm_confidence item \<ge> t)
   \<and> (t1 \<le> t2 \<longrightarrow> length (sarcastic_feedback ps t2) \<le> length (sarcastic_feedback ps t1))"
proof
  show "\<forall>item \<in> set (sarcastic_feedback ps t).
      \<exists>r \<in> set ps. item = sarcastic_item r
        \<and> row_sarcasm r = Some (True, item_sarcasm_confidence item)
        \<and> item_sarcasm_confidence item \<ge> t"
  proof
    fix item
    assume "item \<in> set (sarcastic_feedback ps t)"
    then obtain r where r: "r \<in> set ps" "sarcastic_row t r" "item = sarcastic_item r"
      by (auto simp: sarcastic_feedback_filter)
    from r(2) obtain c where c: "row_sarcasm r = Some (True, c)" "c \<ge> t"
      by (cases "row_sarcasm r") (auto simp: sarcastic_row_def)
    with r(3) have "item_sarcasm_confidence item = c"
      by (simp add: sarcastic_item_def)
    with r c show "\<exists>r \<in> set ps. item = sarcastic_item r
        \<and> row_sarcasm r = Some (True, item_sarcasm_confidence item)
        \<and> item_sarcasm_confidence item \<ge> t"
      by auto
  qed
  show "t1 \<le> t2 \<longrightarrow> length (sarcastic_feedback ps t2) \<le> length (sarcastic_feedback ps t1)"
    using sarcastic_row_mono [of t1 t2]
    by (auto simp: sarcastic_feedback_filter intro: length_filter_mono)
qed

lemma example_batch_feedback:
  "map item_text (sarcastic_feedback example_batch 0.5) = [''a'', ''b'']"
  "map item_text (sarcastic_feedback example_batch 0.7) = [''a'']"
  "map item_sarcasm_confidence (sarcastic_feedback example_batch 0.7) = [0.825]"
  by (simp_all add: sarcastic_feedback_filter example_batch_def example_row_def
      sarcastic_row_def sarcastic_item_def)

theorem sarcastic_feedback_threshold_witness:
  "(0.5::real) \<le> 0.7
   \<and> length (sarcastic_feedback example_batch 0.7) \<le> length (sarcastic_feedback example_batch 0.5)
   \<and> map item_text (sarcastic_feedback example_batch 0.5) = [''a'', ''b'']
   \<and> map item_text (sarcastic_feedback example_batch 0.7) = [''a'']
   \<and> map item_sarcasm_confidence (sarcastic_feedback example_batch 0.7) = [0.825]"
proof -
  have le: "(0.5::real) \<le> 0.7" by simp
  with sarcastic_feedback_threshold [of example_batch "0.7" "0.5" "0.7"]
  have "length (sarcastic_feedback example_batch 0.7) \<le> length (sarcastic_feedback example_batch 0.5)"
    by blast
  with le example_batch_feedback show ?thesis by (intro conjI)
qed

section \<open>The dominant emotion\<close>

lemma emotion_column:
  "ps \<noteq> [] \<Longrightarrow> df_getitem ''emotion'' row_emotion ps = Inr (map row_emotion ps)"
  by (simp add: df_getitem_def df_columns_def)

lemma series_mode_set:
  "set (series_mode xs) = {x \<in> set xs. count_list xs x = Max (set (map (count_list xs) xs))}"
  by (auto simp: series_mode_def)

lemma max_count_attained:
  assumes "xs \<noteq> []"
  shows "\<exists>x \<in> set xs. count_list xs x = Max (set (map (count_list xs) xs))"
proof -
  have "Max (count_list xs ` set xs) \<in> count_list xs ` set xs"
    using assms by (intro Max_in) auto
  then show ?thesis by auto
qed

lemma max_count_greatest:
  "count_list xs e \<le> Max (set (map (count_list xs) xs))"
proof (cases "e \<in> set xs")
  case True
  then show ?thesis by (intro Max_ge) auto
next
  case False
  then show ?thesis by (simp add: count_list_0_iff)
qed

lemma sorted_head_least:
  "sort ys = m # ms \<Longrightarrow> y \<in> set ys \<Longrightarrow> m \<le> (y::'a::linorder)"
proof -
  assume s: "sort ys = m # ms" and y: "y \<in> set ys"
  have "sorted (m # ms)" using sorted_sort [of ys] s by simp
  moreover have "y \<in> set (m # ms)" using y s by (metis set_sort)
  ultimately show ?thesis by auto
qed

text \<open>
  Claim C8, amended. For a batch that is not empty, \<open>dominant_emotion\<close> returns a label
  of the highest count; among several labels of that count it returns the least one in
  the order of strings, whatever the order of the input.
\<close>

theorem dominant_emotion_most_frequent:
  assumes "predictions \<noteq> []"
  shows "\<exists>d. dominant_emotion predictions = Inr d
           \<and> d \<in> set (map row_emotion predictions)
           \<and> (\<forall>e. count_list (map row_emotion predictions) e
                     \<le> count_list (map row_emotion predictions) d)
           \<and> (\<forall>e. count_list (map row_emotion predictions) e
                     = count_list (map row_emotion predictions) d \<longrightarrow> d \<le> e)"
proof -
  let ?es = "map row_emotion predictions"
  let ?mx = "Max (set (map (count_list ?es) ?es))"
  from assms have ne: "?es \<noteq> []" by simp
  from max_count_attained [OF ne] have "set (series_mode ?es) \<noteq> {}"
    unfolding series_mode_set by blast
  then obtain d ds where m: "series_mode ?es = d # ds"
    by (cases "series_mode ?es") auto
  then have dom: "dominant_emotion predictions = Inr d"
    using assms by (simp add: dominant_emotion_def emotion_column bind_err_def)
  from m have "d \<in> set (series_mode ?es)" by simp
  then have d: "d \<in> set ?es" "count_list ?es d = ?mx"
    unfolding series_mode_set by auto
  have least: "d \<le> e" if "count_list ?es e = count_list ?es d" for e
  proof -
    from that d(2) have c: "count_list ?es e = ?mx" by simp
    from d(1) have "count_list ?es d \<noteq> 0" using count_list_0_iff [of ?es d] by blast
    with that have "e \<in> set ?es" using count_list_0_iff [of ?es e] by metis
    with c have "e \<in> set (remdups (filter (\<lambda>x. count_list ?es x = ?mx) ?es))" by simp
    with m show ?thesis
      unfolding series_mode_def by (rule sorted_head_least [rotated -1, rotated])
  qed
  from dom d(1) max_count_greatest [of ?es] d(2) least show ?thesis
    by (intro exI [of _ d]) auto
qed

text \<open>
  The claim as first stated fails on a tie: for the emotions \<open>joy\<close>, \<open>anger\<close> in this
  order the first label met is \<open>joy\<close> and the method returns \<open>anger\<close>.
\<close>

lemma tie_batch_emotions: "map row_emotion tie_batch = [''joy'', ''anger'']"
  by (simp add: tie_batch_def example_row_def)

lemma tie_batch_mode: "series_mode [''joy'', ''anger''] = [''anger'', ''joy'']"
  by (simp add: series_mode_def)

lemma tie_batch_dominant: "dominant_emotion tie_batch = Inr ''anger''"
  by (simp add: tie_batch_emotions dominant_emotion_def df_getitem_def df_columns_def
      bind_err_def tie_batch_mode)
    (simp add: tie_batch_def)

theorem dominant_emotion_tie_not_first:
  "first_most_frequent (map row_emotion tie_batch) = Some ''joy''
   \<and> dominant_emotion tie_batch = Inr ''anger''"
  by (simp add: tie_batch_emotions first_most_frequent_def tie_batch_dominant)

theorem dominant_emotion_most_frequent_witness:
  "tie_batch \<noteq> [] \<and> dominant_emotion tie_batch = Inr ''anger''
   \<and> count_list (map row_emotion tie_batch) ''joy'' = count_list (map row_emotion tie_batch) ''anger''
   \<and> ''anger'' \<le> ''joy''"
proof -
  have ne: "tie_batch \<noteq> []" by (simp add: tie_batch_def)
  from dominant_emotion_most_frequent [OF ne] obtain d where
    d: "dominant_emotion tie_batch = Inr d"
       "\<forall>e. count_list (map row_emotion tie_batch) e = count_list (map row_emotion tie_batch) d \<longrightarrow> d \<le> e"
    by blast
  from d(1) have a: "d = ''anger''" unfolding tie_batch_dominant by simp
  have c: "count_list (map row_emotion tie_batch) ''joy'' = count_list (map row_emotion tie_batch) ''anger''"
    by (simp add: tie_batch_emotions)
  with d(2) have "''anger'' \<le> ''joy''" unfolding a by blast
  with ne c show ?thesis using tie_batch_dominant by (intro conjI)
qed

end
